theory Spec2Isabelle
  imports Main
begin

section \<open>Topology tables\<close>

text \<open>
  The module-level dictionaries of the orchestrator script. A Python dict keeps its
  insertion order, and the loops of the script iterate in that order, so each dict
  is an association list. The inner dicts have a fixed set of string keys and are
  records.
\<close>

record iface_config =
  iface_network :: string
  iface_ip :: string

record router_config =
  interfaces :: "(string \<times> iface_config) list"
  router_id :: string
  networks :: "string list"
  north_interface :: string
  south_interface :: string

record host_config =
  host_ip :: string
  host_interface :: string
  gateway :: string
  remote_subnet :: string

definition ROUTERS :: "(string \<times> router_config) list" where
  "ROUTERS =
    [(''r1'', \<lparr>interfaces =
                [(''eth0'', \<lparr>iface_network = ''net14'', iface_ip = ''10.0.14.4/24''\<rparr>),
                 (''eth1'', \<lparr>iface_network = ''net10'', iface_ip = ''10.0.10.3/24''\<rparr>),
                 (''eth2'', \<lparr>iface_network = ''net13'', iface_ip = ''10.0.13.4/24''\<rparr>)],
              router_id = ''192.168.1.1'',
              networks = [''10.0.14.0/24'', ''10.0.10.0/24'', ''10.0.13.0/24''],
              north_interface = ''eth1'',
              south_interface = ''eth2''\<rparr>),
     (''r2'', \<lparr>interfaces =
                [(''eth0'', \<lparr>iface_network = ''net10'', iface_ip = ''10.0.10.4/24''\<rparr>),
                 (''eth1'', \<lparr>iface_network = ''net11'', iface_ip = ''10.0.11.3/24''\<rparr>)],
              router_id = ''192.168.1.2'',
              networks = [''10.0.10.0/24'', ''10.0.11.0/24''],
              north_interface = ''eth0'',
              south_interface = ''eth1''\<rparr>),
     (''r3'', \<lparr>interfaces =
                [(''eth0'', \<lparr>iface_network = ''net11'', iface_ip = ''10.0.11.4/24''\<rparr>),
                 (''eth1'', \<lparr>iface_network = ''net12'', iface_ip = ''10.0.12.3/24''\<rparr>),
                 (''eth2'', \<lparr>iface_network = ''net15'', iface_ip = ''10.0.15.4/24''\<rparr>)],
              router_id = ''192.168.1.3'',
              networks = [''10.0.11.0/24'', ''10.0.12.0/24'', ''10.0.15.0/24''],
              north_interface = ''eth0'',
              south_interface = ''eth1''\<rparr>),
     (''r4'', \<lparr>interfaces =
                [(''eth0'', \<lparr>iface_network = ''net13'', iface_ip = ''10.0.13.3/24''\<rparr>),
                 (''eth1'', \<lparr>iface_network = ''net12'', iface_ip = ''10.0.12.4/24''\<rparr>)],
              router_id = ''192.168.1.4'',
              networks = [''10.0.13.0/24'', ''10.0.12.0/24''],
              north_interface = ''eth0'',
              south_interface = ''eth1''\<rparr>)]"

definition HOSTS :: "(string \<times> host_config) list" where
  "HOSTS =
    [(''hosta'', \<lparr>host_ip = ''10.0.14.3/24'', host_interface = ''eth0'',
                 gateway = ''10.0.14.4'', remote_subnet = ''10.0.15.0/24''\<rparr>),
     (''hostb'', \<lparr>host_ip = ''10.0.15.3/24'', host_interface = ''eth0'',
                 gateway = ''10.0.15.4'', remote_subnet = ''10.0.14.0/24''\<rparr>)]"

definition DEFAULT_WEIGHT :: int where
  "DEFAULT_WEIGHT = 10"

definition HIGH_WEIGHT :: int where
  "HIGH_WEIGHT = 100"

text \<open>
  The four names are ordinary module globals of a Python program, which any code of
  the module could rebind or mutate. The state of a run therefore carries them, the
  operations read them from the state, and \<open>module_init\<close> is their value once
  the module is loaded.
\<close>

record module_globals =
  g_ROUTERS :: "(string \<times> router_config) list"
  g_HOSTS :: "(string \<times> host_config) list"
  g_DEFAULT_WEIGHT :: int
  g_HIGH_WEIGHT :: int

definition module_init :: module_globals where
  "module_init = \<lparr>g_ROUTERS = ROUTERS, g_HOSTS = HOSTS,
                  g_DEFAULT_WEIGHT = DEFAULT_WEIGHT, g_HIGH_WEIGHT = HIGH_WEIGHT\<rparr>"

section \<open>Strings\<close>

text \<open>
  A Python \<open>str\<close> is represented by its UTF-8 encoding, one \<open>char\<close> for each
  byte; the literals of the script are ASCII. Below are \<open>str(n)\<close> of a Python
  int, \<open>sep.join(xs)\<close>, \<open>s.strip()\<close> and \<open>s.upper()\<close> (on ASCII letters, as
  in the router names).
\<close>

fun str_nat :: "nat \<Rightarrow> string" where
  "str_nat n =
     (if n < 10 then [''0123456789'' ! n]
      else str_nat (n div 10) @ [''0123456789'' ! (n mod 10)])"

declare str_nat.simps [simp del]

definition str_int :: "int \<Rightarrow> string" where
  "str_int i = (if i < 0 then ''-'' @ str_nat (nat (- i)) else str_nat (nat i))"

fun join :: "string \<Rightarrow> string list \<Rightarrow> string" where
  "join sep [] = []"
| "join sep [x] = x"
| "join sep (x # y # ys) = x @ sep @ join sep (y # ys)"

text \<open>
  The whitespace of \<open>str.strip\<close> and \<open>str.isspace\<close>, each character in its
  encoding: U+0009 to U+000D, U+001C to U+0020, U+0085, U+00A0, U+1680, U+2000 to
  U+200A, U+2028, U+2029, U+202F, U+205F and U+3000.
\<close>

definition spaces :: "string list" where
  "spaces =
     [[CHR 0x09], [CHR 0x0A], [CHR 0x0B], [CHR 0x0C], [CHR 0x0D],
      [CHR 0x1C], [CHR 0x1D], [CHR 0x1E], [CHR 0x1F], [CHR 0x20],
      [CHR 0xC2, CHR 0x85], [CHR 0xC2, CHR 0xA0],
      [CHR 0xE1, CHR 0x9A, CHR 0x80],
      [CHR 0xE2, CHR 0x80, CHR 0x80], [CHR 0xE2, CHR 0x80, CHR 0x81],
      [CHR 0xE2, CHR 0x80, CHR 0x82], [CHR 0xE2, CHR 0x80, CHR 0x83],
      [CHR 0xE2, CHR 0x80, CHR 0x84], [CHR 0xE2, CHR 0x80, CHR 0x85],
      [CHR 0xE2, CHR 0x80, CHR 0x86], [CHR 0xE2, CHR 0x80, CHR 0x87],
      [CHR 0xE2, CHR 0x80, CHR 0x88], [CHR 0xE2, CHR 0x80, CHR 0x89],
      [CHR 0xE2, CHR 0x80, CHR 0x8A],
      [CHR 0xE2, CHR 0x80, CHR 0xA8], [CHR 0xE2, CHR 0x80, CHR 0xA9],
      [CHR 0xE2, CHR 0x80, CHR 0xAF],
      [CHR 0xE2, CHR 0x81, CHR 0x9F],
      [CHR 0xE3, CHR 0x80, CHR 0x80]]"

text \<open>
  \<open>starts_with w s\<close>: the string \<open>s\<close> begins with the nonempty string \<open>w\<close>.
  \<open>strip_prefixes ws s\<close> removes from the front of \<open>s\<close>, again and again, any of
  the strings \<open>ws\<close>; \<open>strip\<close> does so with the whitespace at the front and,
  mirrored, at the back.
\<close>

definition starts_with :: "string \<Rightarrow> string \<Rightarrow> bool" where
  "starts_with w s \<longleftrightarrow> w \<noteq> [] \<and> take (length w) s = w"

function strip_prefixes :: "string list \<Rightarrow> string \<Rightarrow> string" where
  "strip_prefixes ws s =
     (case find (\<lambda>w. starts_with w s) ws of
        None \<Rightarrow> s
      | Some w \<Rightarrow> strip_prefixes ws (drop (length w) s))"
  by pat_completeness auto
termination
proof (relation "measure (\<lambda>(ws, s). length s)")
  show "wf (measure (\<lambda>(ws, s). length s))" by simp
next
  fix ws :: "string list" and s w :: string
  assume "find (\<lambda>w. starts_with w s) ws = Some w"
  then have "starts_with w s" by (auto simp: find_Some_iff)
  then have "w \<noteq> []" and "take (length w) s = w" by (simp_all add: starts_with_def)
  then have "s \<noteq> []" by auto
  with \<open>w \<noteq> []\<close> show "((ws, drop (length w) s), (ws, s)) \<in> measure (\<lambda>(ws, s). length s)"
    by simp
qed

declare strip_prefixes.simps [simp del]

definition strip :: "string \<Rightarrow> string" where
  "strip s = rev (strip_prefixes (map rev spaces) (rev (strip_prefixes spaces s)))"

text \<open>
  The newline translation of text mode: every CR LF becomes LF, and then every
  remaining CR becomes LF.
\<close>

fun translate_newlines :: "string \<Rightarrow> string" where
  "translate_newlines [] = []"
| "translate_newlines [c] = [if c = CHR 0x0D then CHR 0x0A else c]"
| "translate_newlines (c # d # cs) =
     (if c = CHR 0x0D \<and> d = CHR 0x0A then CHR 0x0A # translate_newlines cs
      else if c = CHR 0x0D then CHR 0x0A # translate_newlines (d # cs)
      else c # translate_newlines (d # cs))"

definition upper_char :: "char \<Rightarrow> char" where
  "upper_char c =
     (case map_of (zip ''abcdefghijklmnopqrstuvwxyz'' ''ABCDEFGHIJKLMNOPQRSTUVWXYZ'') c of
        Some u \<Rightarrow> u
      | None \<Rightarrow> c)"

definition upper :: "string \<Rightarrow> string" where
  "upper s = map upper_char s"

section \<open>Runs of the program\<close>

text \<open>
  What a run does to the outside is recorded as a trace of events, in order:
  \<open>Spawn argv\<close> is a call of \<open>subprocess.run\<close> with that argument vector,
  \<open>Popen argv\<close> a call of \<open>subprocess.Popen\<close>, \<open>Print\<close> a call of
  \<open>print\<close> (without the final newline), \<open>Sleep\<close> a call of
  \<open>time.sleep\<close>, \<open>Install_sigint\<close> a call of \<open>signal.signal(SIGINT, _)\<close>,
  \<open>Terminate\<close> a call of \<open>terminate()\<close> on a child, \<open>Print_help\<close> the
  parser's help.
\<close>

datatype handler = Default_handler | Stop_ping nat

datatype event =
    Spawn "string list"
  | Popen "string list"
  | Print string
  | Sleep nat
  | Install_sigint handler
  | Terminate nat
  | Print_help

text \<open>
  What the outside does to a run. The \<open>n\<close>-th call of \<open>subprocess.run\<close> gets a
  process that ends with a return code and whose captured output and error output
  decode to the two given texts (\<open>Exited\<close>), or a process that ends with a return
  code but whose captured bytes cannot be decoded as text (\<open>Undecodable\<close>), or no
  process at all, because none could be started (\<open>Not_started\<close>: the executable is
  missing, say).
\<close>

datatype outcome = Exited int string string | Undecodable int | Not_started

datatype feed = Line string | Eof | Sigint

datatype exn =
    Called_process_error "string list" int string string
  | OS_error
  | Unicode_decode_error
  | Key_error string
  | Keyboard_interrupt
  | System_exit int

record state =
  globals :: module_globals
  world :: "nat \<Rightarrow> outcome"
  tick :: nat
  trace :: "event list"
  sigint_handler :: handler
  children :: "string list list"
  popen_starts :: bool
  ping_feed :: "nat \<Rightarrow> feed"
  ping_pos :: nat

type_synonym 'a prog = "state \<Rightarrow> (exn + 'a) \<times> state"

definition return :: "'a \<Rightarrow> 'a prog" where
  "return a s = (Inr a, s)"

definition raise :: "exn \<Rightarrow> 'a prog" where
  "raise e s = (Inl e, s)"

definition bind :: "'a prog \<Rightarrow> ('a \<Rightarrow> 'b prog) \<Rightarrow> 'b prog" where
  "bind m f s = (case m s of (Inl e, s') \<Rightarrow> (Inl e, s') | (Inr a, s') \<Rightarrow> f a s')"

definition seq :: "'a prog \<Rightarrow> 'b prog \<Rightarrow> 'b prog" where
  "seq m n = bind m (\<lambda>_. n)"

text \<open>A block of statements, and a \<open>for\<close> loop over a list.\<close>

fun block :: "unit prog list \<Rightarrow> unit prog" where
  "block [] = return ()"
| "block (m # ms) = seq m (block ms)"

definition for_each :: "'a list \<Rightarrow> ('a \<Rightarrow> unit prog) \<Rightarrow> unit prog" where
  "for_each xs body = block (map body xs)"

text \<open>An expression statement: the value of the call is dropped.\<close>

definition discard :: "'a prog \<Rightarrow> unit prog" where
  "discard m = bind m (\<lambda>_. return ())"

text \<open>\<open>try: m except E: h\<close>, where \<open>h e = None\<close> when \<open>e\<close> is not an \<open>E\<close>.\<close>

definition try_except :: "'a prog \<Rightarrow> (exn \<Rightarrow> 'a prog option) \<Rightarrow> 'a prog" where
  "try_except m h s =
     (case m s of
        (Inl e, s') \<Rightarrow> (case h e of Some k \<Rightarrow> k s' | None \<Rightarrow> (Inl e, s'))
      | (Inr a, s') \<Rightarrow> (Inr a, s'))"

definition emit :: "event \<Rightarrow> unit prog" where
  "emit e s = (Inr (), s\<lparr>trace := trace s @ [e]\<rparr>)"

definition print :: "string \<Rightarrow> unit prog" where
  "print msg = emit (Print msg)"

definition sleep :: "nat \<Rightarrow> unit prog" where
  "sleep n = emit (Sleep n)"

definition read_globals :: "module_globals prog" where
  "read_globals s = (Inr (globals s), s)"

text \<open>\<open>d[k]\<close> on a dict.\<close>

definition lookup :: "(string \<times> 'v) list \<Rightarrow> string \<Rightarrow> 'v prog" where
  "lookup d k = (case map_of d k of Some v \<Rightarrow> return v | None \<Rightarrow> raise (Key_error k))"

text \<open>
  \<open>subprocess.run(argv, capture_output=True, text=True, check=True)\<close>: the call is
  recorded and the outside decides what becomes of it. A process that cannot be
  started raises \<open>OSError\<close>. With \<open>text=True\<close> the captured bytes are decoded
  and their newlines translated when the process has ended; bytes that do not decode
  raise \<open>UnicodeDecodeError\<close>, whatever the return code. Only then
  \<open>check=True\<close> turns a nonzero return code into \<open>CalledProcessError\<close>, which
  carries the two texts. The value is the captured stdout.
\<close>

definition subprocess_run :: "string list \<Rightarrow> string prog" where
  "subprocess_run argv s =
     (let s' = s\<lparr>trace := trace s @ [Spawn argv], tick := tick s + 1\<rparr>
      in case world s (tick s) of
           Not_started \<Rightarrow> (Inl OS_error, s')
         | Undecodable rc \<Rightarrow> (Inl Unicode_decode_error, s')
         | Exited rc out err \<Rightarrow>
             (let stdout = translate_newlines out; stderr = translate_newlines err
              in if rc \<noteq> 0 then (Inl (Called_process_error argv rc stdout stderr), s')
                 else (Inr stdout, s')))"

section \<open>The command-execution helper\<close>

text \<open>The truth value of the \<open>container\<close> argument: \<open>None\<close> and \<open>""\<close> are false.\<close>

definition truthy :: "string option \<Rightarrow> bool" where
  "truthy x = (case x of None \<Rightarrow> False | Some v \<Rightarrow> v \<noteq> [])"

definition full_cmd :: "string list \<Rightarrow> string option \<Rightarrow> string list" where
  "full_cmd cmd container =
     (if truthy container then [''docker'', ''exec'', the container] @ cmd else cmd)"

definition run_command :: "string list \<Rightarrow> string option \<Rightarrow> string option prog" where
  "run_command cmd container =
     try_except
       (bind (subprocess_run (full_cmd cmd container)) (\<lambda>out. return (Some (strip out))))
       (\<lambda>e. case e of
          Called_process_error argv rc out err \<Rightarrow>
            Some (seq (block
                    [print (''Error executing command: '' @ join '' '' (full_cmd cmd container)),
                     print (''Exit code: '' @ str_int rc),
                     print (''Error output: '' @ err)])
                  (return None))
        | _ \<Rightarrow> None)"

section \<open>OSPF link costs\<close>

definition set_ospf_weight :: "string \<Rightarrow> string \<Rightarrow> int \<Rightarrow> unit prog" where
  "set_ospf_weight router interface weight =
     (let cmds = [''configure terminal'',
                  ''interface '' @ interface,
                  ''ip ospf cost '' @ str_int weight,
                  ''exit'',
                  ''end'',
                  ''write memory''];
          args = concat (map (\<lambda>c. [''-c'', c]) cmds)
      in discard (run_command ([''docker'', ''exec'', router, ''vtysh''] @ args) None))"

text \<open>The expression \<open>ROUTERS[router]\<close>, read from the module globals.\<close>

definition router_entry :: "string \<Rightarrow> router_config prog" where
  "router_entry router = bind read_globals (\<lambda>g. lookup (g_ROUTERS g) router)"

definition configure_basic_ospf :: "string \<Rightarrow> router_config \<Rightarrow> unit prog" where
  "configure_basic_ospf router config =
     (let ospf_config0 =
            ''\<newline>    configure terminal\<newline>    router ospf\<newline>    ospf router-id ''
            @ router_id config @ ''\<newline>    '';
          ospf_config1 =
            foldl (\<lambda>acc network. acc @ ''network '' @ network @ '' area 0.0.0.0\<newline>'')
              ospf_config0 (networks config);
          ospf_config = ospf_config1 @ ''exit\<newline>end\<newline>write memory''
      in discard (run_command [''vtysh'', ''-c'', ospf_config] (Some router)))"

definition configure_ospf :: "string \<Rightarrow> unit prog" where
  "configure_ospf path =
     seq (print ''Configuring OSPF on all routers...'')
      (bind read_globals (\<lambda>g.
        (let r1_r2_weight = (if path = ''north'' then g_DEFAULT_WEIGHT g else g_HIGH_WEIGHT g);
             r2_r3_weight = (if path = ''north'' then g_DEFAULT_WEIGHT g else g_HIGH_WEIGHT g);
             r1_r4_weight = (if path = ''north'' then g_HIGH_WEIGHT g else g_DEFAULT_WEIGHT g);
             r3_r4_weight = (if path = ''north'' then g_HIGH_WEIGHT g else g_DEFAULT_WEIGHT g)
         in block
           [for_each (g_ROUTERS g) (\<lambda>(router, config).
              block
                [configure_basic_ospf router config,
                 if router = ''r1'' then block
                   [bind (router_entry router)
                      (\<lambda>c. set_ospf_weight router (north_interface c) r1_r2_weight),
                    bind (router_entry router)
                      (\<lambda>c. set_ospf_weight router (south_interface c) r1_r4_weight)]
                 else if router = ''r2'' then block
                   [bind (router_entry router)
                      (\<lambda>c. set_ospf_weight router (north_interface c) r1_r2_weight),
                    bind (router_entry router)
                      (\<lambda>c. set_ospf_weight router (south_interface c) r2_r3_weight)]
                 else if router = ''r3'' then block
                   [bind (router_entry router)
                      (\<lambda>c. set_ospf_weight router (north_interface c) r2_r3_weight),
                    bind (router_entry router)
                      (\<lambda>c. set_ospf_weight router (south_interface c) r3_r4_weight)]
                 else if router = ''r4'' then block
                   [bind (router_entry router)
                      (\<lambda>c. set_ospf_weight router (north_interface c) r1_r4_weight),
                    bind (router_entry router)
                      (\<lambda>c. set_ospf_weight router (south_interface c) r3_r4_weight)]
                 else return ()]),
            print ''Waiting for OSPF convergence...'',
            sleep 5,
            print ''OSPF configuration complete''])))"

text \<open>
  One statement \<open>set_ospf_weight(r, ROUTERS[r][side], W)\<close> of the path switch, where
  \<open>W\<close> is one of the two weight globals.
\<close>

definition set_side :: "string \<Rightarrow> (router_config \<Rightarrow> string) \<Rightarrow> (module_globals \<Rightarrow> int) \<Rightarrow> unit prog"
  where
  "set_side router side weight =
     bind (router_entry router) (\<lambda>c.
       bind read_globals (\<lambda>g. set_ospf_weight router (side c) (weight g)))"

definition switch_traffic_path :: "string \<Rightarrow> string \<Rightarrow> unit prog" where
  "switch_traffic_path from_path to_path =
     block
       [print (''Switching traffic from '' @ from_path @ '' path to '' @ to_path @ '' path...''),
        if from_path = ''north'' \<and> to_path = ''south'' then block
          [print ''Step 1: Lowering cost of southern path'',
           set_side ''r1'' south_interface g_DEFAULT_WEIGHT,
           set_side ''r4'' north_interface g_DEFAULT_WEIGHT,
           set_side ''r3'' south_interface g_DEFAULT_WEIGHT,
           set_side ''r4'' south_interface g_DEFAULT_WEIGHT,
           print ''Waiting for OSPF to converge...'',
           sleep 5,
           print ''Step 2: Increasing cost of northern path'',
           set_side ''r1'' north_interface g_HIGH_WEIGHT,
           set_side ''r2'' north_interface g_HIGH_WEIGHT,
           set_side ''r2'' south_interface g_HIGH_WEIGHT,
           set_side ''r3'' north_interface g_HIGH_WEIGHT]
        else if from_path = ''south'' \<and> to_path = ''north'' then block
          [print ''Step 1: Lowering cost of northern path'',
           set_side ''r1'' north_interface g_DEFAULT_WEIGHT,
           set_side ''r2'' north_interface g_DEFAULT_WEIGHT,
           set_side ''r2'' south_interface g_DEFAULT_WEIGHT,
           set_side ''r3'' north_interface g_DEFAULT_WEIGHT,
           print ''Waiting for OSPF to converge...'',
           sleep 5,
           print ''Step 2: Increasing cost of southern path'',
           set_side ''r1'' south_interface g_HIGH_WEIGHT,
           set_side ''r4'' north_interface g_HIGH_WEIGHT,
           set_side ''r3'' south_interface g_HIGH_WEIGHT,
           set_side ''r4'' south_interface g_HIGH_WEIGHT]
        else return (),
        print ''Waiting for full OSPF convergence...'',
        sleep 5,
        print (''Traffic switched to '' @ to_path @ '' path'')]"

section \<open>Containers, FRR and host routes\<close>

definition start_containers :: "unit prog" where
  "start_containers =
     block
       [print ''Starting containers...'',
        discard (run_command [''docker'', ''compose'', ''up'', ''-d''] None),
        sleep 5,
        print ''Containers started'']"

definition stop_containers :: "unit prog" where
  "stop_containers =
     block
       [print ''Stopping containers...'',
        discard (run_command [''docker'', ''compose'', ''down''] None),
        print ''Containers stopped'']"

definition repo_cmd :: string where
  "repo_cmd =
     ''echo deb [signed-by=/usr/share/keyrings/frrouting.gpg] '' @
     ''https://deb.frrouting.org/frr $(lsb_release -s -c) frr-stable | '' @
     ''tee -a /etc/apt/sources.list.d/frr.list''"

definition install_frr :: "string \<Rightarrow> unit prog" where
  "install_frr container =
     block
       [print (''Installing FRR on '' @ container @ ''...''),
        discard (run_command [''apt-get'', ''update''] (Some container)),
        discard (run_command [''apt'', ''-y'', ''install'', ''curl'', ''gnupg'', ''lsb-release'']
                   (Some container)),
        discard (run_command
                   [''bash'', ''-c'',
                    ''curl -s https://deb.frrouting.org/frr/keys.gpg | '' @
                    ''tee /usr/share/keyrings/frrouting.gpg > /dev/null'']
                   (Some container)),
        discard (run_command [''bash'', ''-c'', repo_cmd] (Some container)),
        discard (run_command [''apt'', ''update''] (Some container)),
        discard (run_command [''apt'', ''-y'', ''install'', ''frr'', ''frr-pythontools'']
                   (Some container)),
        discard (run_command [''sed'', ''-i'', ''s/ospfd=no/ospfd=yes/g'', ''/etc/frr/daemons'']
                   (Some container)),
        discard (run_command [''service'', ''frr'', ''restart''] (Some container)),
        bind (run_command [''bash'', ''-c'', ''pgrep ospfd''] (Some container)) (\<lambda>output.
          if truthy output
          then print (''OSPF daemon running on '' @ container @ '' (pid '' @ the output @ '')'')
          else print (''Warning: OSPF daemon may not be running on '' @ container))]"

definition setup_host_routes :: "unit prog" where
  "setup_host_routes =
     block
       [print ''Setting up routes on host machines...'',
        bind read_globals (\<lambda>g.
          for_each (g_HOSTS g) (\<lambda>(host, config).
            discard (run_command
                       [''ip'', ''route'', ''add'', remote_subnet config, ''via'', gateway config]
                       (Some host)))),
        print ''Host routes configured'']"

section \<open>Inspection commands\<close>

text \<open>\<open>print(output if output else msg)\<close>.\<close>

definition print_or :: "string option \<Rightarrow> string \<Rightarrow> unit prog" where
  "print_or output msg = print (if truthy output then the output else msg)"

definition show_routing_tables :: "unit prog" where
  "show_routing_tables =
     bind read_globals (\<lambda>g.
       for_each (map fst (g_ROUTERS g)) (\<lambda>router.
         block
           [print (''\<newline>=== '' @ upper router @ '' Routing Table ===''),
            bind (run_command [''vtysh'', ''-c'', ''show ip route ospf''] (Some router))
              (\<lambda>output. print_or output ''No OSPF routes found'')]))"

definition show_ospf_neighbors :: "unit prog" where
  "show_ospf_neighbors =
     bind read_globals (\<lambda>g.
       for_each (map fst (g_ROUTERS g)) (\<lambda>router.
         block
           [print (''\<newline>=== '' @ upper router @ '' OSPF Neighbors ===''),
            bind (run_command [''vtysh'', ''-c'', ''show ip ospf neighbor''] (Some router))
              (\<lambda>output. print_or output ''No OSPF neighbors found'')]))"

definition trace_route :: "unit prog" where
  "trace_route =
     block
       [print ''\<newline>=== Traceroute from HostA to HostB ==='',
        bind (run_command [''traceroute'', ''-n'', ''10.0.15.3''] (Some ''hosta''))
          (\<lambda>output. print_or output ''Traceroute failed'')]"

definition ping_test :: "int \<Rightarrow> unit prog" where
  "ping_test count =
     block
       [print (''\<newline>=== Ping test from HostA to HostB ('' @ str_int count @ '' packets) ===''),
        bind (run_command [''ping'', ''-c'', str_int count, ''10.0.15.3''] (Some ''hosta''))
          (\<lambda>output. print_or output ''Ping failed'')]"

section \<open>The continuous ping\<close>

text \<open>
  \<open>subprocess.Popen(argv, ...)\<close>: the call is recorded; either the child is started
  and is from then on known by its position among the children of the run, or no
  process could be started and the call raises.
\<close>

definition popen :: "string list \<Rightarrow> nat prog" where
  "popen argv s =
     (let s' = s\<lparr>trace := trace s @ [Popen argv]\<rparr>
      in if popen_starts s
         then (Inr (length (children s)), s'\<lparr>children := children s @ [argv]\<rparr>)
         else (Inl OS_error, s'))"

definition signal_sigint :: "handler \<Rightarrow> unit prog" where
  "signal_sigint h s =
     (Inr (), s\<lparr>sigint_handler := h, trace := trace s @ [Install_sigint h]\<rparr>)"

text \<open>
  The closure \<open>signal_handler\<close> of \<open>continuous_ping\<close>, with the child it has
  captured; \<open>sys.exit(0)\<close> raises \<open>SystemExit(0)\<close>.
\<close>

definition signal_handler :: "nat \<Rightarrow> unit prog" where
  "signal_handler ping_process =
     block
       [print ''\<newline>Stopping ping...'',
        emit (Terminate ping_process),
        raise (System_exit 0)]"

text \<open>
  A SIGINT that reaches the program runs the handler that is installed at that
  moment; Python's default handler raises \<open>KeyboardInterrupt\<close>.
\<close>

definition deliver_sigint :: "unit prog" where
  "deliver_sigint s =
     (case sigint_handler s of
        Default_handler \<Rightarrow> raise Keyboard_interrupt s
      | Stop_ping p \<Rightarrow> signal_handler p s)"

text \<open>
  The loop \<open>for line in ping_process.stdout: print(line.strip())\<close>. The outside
  feeds it: a line of output, the end of the output, or a SIGINT that arrives while
  the loop waits for the next line. The ping has no packet count, so the feed may go
  on for ever, and then the loop does not return (the value \<open>None\<close>).
\<close>

partial_function (option) ping_loop :: "state \<Rightarrow> ((exn + unit) \<times> state) option" where
  "ping_loop s =
     (let s0 = s\<lparr>ping_pos := ping_pos s + 1\<rparr>
      in case ping_feed s (ping_pos s) of
           Eof \<Rightarrow> Some (Inr (), s0)
         | Line line \<Rightarrow>
             (case print (strip line) s0 of
                (Inl e, s') \<Rightarrow> Some (Inl e, s')
              | (Inr _, s') \<Rightarrow> ping_loop s')
         | Sigint \<Rightarrow>
             (case deliver_sigint s0 of
                (Inl e, s') \<Rightarrow> Some (Inl e, s')
              | (Inr _, s') \<Rightarrow> ping_loop s'))"

definition continuous_ping :: "state \<Rightarrow> ((exn + unit) \<times> state) option" where
  "continuous_ping s =
     (case seq (print ''Starting continuous ping from HostA to HostB...'')
            (seq (print ''Press Ctrl+C to stop'')
              (bind (popen [''docker'', ''exec'', ''hosta'', ''ping'', ''10.0.15.3''])
                 (\<lambda>ping_process.
                    seq (signal_sigint (Stop_ping ping_process)) (return ping_process)))) s of
        (Inl e, s') \<Rightarrow> Some (Inl e, s')
      | (Inr ping_process, s') \<Rightarrow>
          (case ping_loop s' of
             None \<Rightarrow> None
           | Some (Inl Keyboard_interrupt, s'') \<Rightarrow>
               Some (block [print ''\<newline>Stopping ping...'', emit (Terminate ping_process)] s'')
           | Some r \<Rightarrow> Some r))"

section \<open>The argument dispatcher\<close>

text \<open>
  The parsed command line: one flag for each \<open>store_true\<close> option, and
  \<open>len(sys.argv)\<close>.
\<close>

record args =
  arg_start :: bool
  arg_stop :: bool
  arg_setup :: bool
  arg_use_north :: bool
  arg_use_south :: bool
  arg_switch_to_north :: bool
  arg_switch_to_south :: bool
  arg_show_routes :: bool
  arg_show_neighbors :: bool
  arg_traceroute :: bool
  arg_ping :: bool
  arg_continuous_ping :: bool
  argc :: nat

text \<open>
  The calls that \<open>main\<close> makes, as values: which operation, with which arguments.
  \<open>Install_frr_all\<close> is the loop \<open>for router in ROUTERS.keys(): install_frr(router)\<close>
  and \<open>Say\<close> a \<open>print\<close> of \<open>main\<close> itself.
\<close>

datatype call =
    Start_containers
  | Stop_containers
  | Install_frr_all
  | Configure_ospf string
  | Setup_host_routes
  | Say string
  | Switch_traffic_path string string
  | Show_routing_tables
  | Show_ospf_neighbors
  | Trace_route
  | Ping_test

fun perform :: "call \<Rightarrow> unit prog" where
  "perform Start_containers = start_containers"
| "perform Stop_containers = stop_containers"
| "perform Install_frr_all =
     bind read_globals (\<lambda>g. for_each (map fst (g_ROUTERS g)) install_frr)"
| "perform (Configure_ospf path) = configure_ospf path"
| "perform Setup_host_routes = setup_host_routes"
| "perform (Say msg) = print msg"
| "perform (Switch_traffic_path from_path to_path) = switch_traffic_path from_path to_path"
| "perform Show_routing_tables = show_routing_tables"
| "perform Show_ospf_neighbors = show_ospf_neighbors"
| "perform Trace_route = trace_route"
| "perform Ping_test = ping_test 4"

definition main_calls :: "args \<Rightarrow> call list" where
  "main_calls a =
     (if arg_start a then [Start_containers] else []) @
     (if arg_stop a then [Stop_containers] else []) @
     (if arg_setup a
      then [Start_containers, Install_frr_all, Configure_ospf ''north'', Setup_host_routes,
            Say ''Network setup complete'']
      else []) @
     (if arg_use_north a then [Configure_ospf ''north''] else []) @
     (if arg_use_south a then [Configure_ospf ''south''] else []) @
     (if arg_switch_to_north a then [Switch_traffic_path ''south'' ''north''] else []) @
     (if arg_switch_to_south a then [Switch_traffic_path ''north'' ''south''] else []) @
     (if arg_show_routes a then [Show_routing_tables] else []) @
     (if arg_show_neighbors a then [Show_ospf_neighbors] else []) @
     (if arg_traceroute a then [Trace_route] else []) @
     (if arg_ping a then [Ping_test] else [])"

definition main :: "args \<Rightarrow> state \<Rightarrow> ((exn + unit) \<times> state) option" where
  "main a s =
     (case for_each (main_calls a) perform s of
        (Inl e, s1) \<Rightarrow> Some (Inl e, s1)
      | (Inr _, s1) \<Rightarrow>
          (case (if arg_continuous_ping a then continuous_ping s1 else Some (Inr (), s1)) of
             None \<Rightarrow> None
           | Some (Inl e, s2) \<Rightarrow> Some (Inl e, s2)
           | Some (Inr _, s2) \<Rightarrow>
               Some ((if argc a = 1 then emit Print_help else return ()) s2)))"

section \<open>Observing a run\<close>

text \<open>
  The state in which the program starts: the module is loaded, nothing has happened
  yet, and the outside is given.
\<close>

definition initial :: "(nat \<Rightarrow> outcome) \<Rightarrow> bool \<Rightarrow> (nat \<Rightarrow> feed) \<Rightarrow> state" where
  "initial w p f =
     \<lparr>globals = module_init, world = w, tick = 0, trace = [],
      sigint_handler = Default_handler, children = [],
      popen_starts = p, ping_feed = f, ping_pos = 0\<rparr>"

definition loaded :: "state \<Rightarrow> bool" where
  "loaded s \<longleftrightarrow> globals s = module_init"

text \<open>
  Every call of \<open>subprocess.run\<close> in the run completes: the process can be started
  and what it writes can be decoded.
\<close>

definition all_complete :: "state \<Rightarrow> bool" where
  "all_complete s \<longleftrightarrow> (\<forall>n. \<exists>rc out err. world s n = Exited rc out err)"

text \<open>The commands and the waits of a trace, in order.\<close>

fun is_cmd :: "event \<Rightarrow> bool" where
  "is_cmd (Spawn argv) = True"
| "is_cmd (Sleep n) = True"
| "is_cmd e = False"

definition cmds :: "state \<Rightarrow> event list" where
  "cmds s = filter is_cmd (trace s)"

text \<open>
  \<open>runs m cs\<close>: from a loaded state, \<open>m\<close> either returns, having issued exactly
  the commands and waits \<open>cs\<close>, or is aborted by the exception of a call that did
  not complete, having issued a prefix of \<open>cs\<close>.
\<close>

definition runs :: "'a prog \<Rightarrow> event list \<Rightarrow> bool" where
  "runs m cs \<longleftrightarrow>
     (\<forall>s. loaded s \<longrightarrow>
        (case m s of
           (Inr a, s') \<Rightarrow> loaded s' \<and> world s' = world s \<and> cmds s' = cmds s @ cs
         | (Inl e, s') \<Rightarrow>
             (e = OS_error \<or> e = Unicode_decode_error) \<and> \<not> all_complete s \<and>
             (\<exists>pre suf. cmds s' = cmds s @ pre \<and> cs = pre @ suf)))"

section \<open>Whitespace\<close>

text \<open>
  A text that consists of whitespace characters only.
\<close>

definition whitespace :: "string \<Rightarrow> bool" where
  "whitespace x \<longleftrightarrow> (\<exists>ws. set ws \<subseteq> set spaces \<and> x = concat ws)"

section \<open>Expected command lines\<close>

text \<open>
  The command that sets the OSPF cost \<open>w\<close> of interface \<open>i\<close> on router \<open>r\<close>,
  and the command that gives router \<open>r\<close> its basic OSPF configuration: its
  router-id, and each of its networks in area 0.0.0.0.
\<close>

definition cost_cmd :: "string \<Rightarrow> string \<Rightarrow> int \<Rightarrow> event" where
  "cost_cmd r i w =
     Spawn [''docker'', ''exec'', r, ''vtysh'',
            ''-c'', ''configure terminal'',
            ''-c'', ''interface '' @ i,
            ''-c'', ''ip ospf cost '' @ str_int w,
            ''-c'', ''exit'',
            ''-c'', ''end'',
            ''-c'', ''write memory'']"

definition basic_cmd :: "string \<Rightarrow> string \<Rightarrow> string list \<Rightarrow> event" where
  "basic_cmd r rid nets =
     Spawn [''docker'', ''exec'', r, ''vtysh'', ''-c'',
            ''\<newline>    configure terminal\<newline>    router ospf\<newline>    ospf router-id '' @ rid @
            ''\<newline>    '' @
            concat (map (\<lambda>n. ''network '' @ n @ '' area 0.0.0.0\<newline>'') nets) @
            ''exit\<newline>end\<newline>write memory'']"

text \<open>
  The link between two routers, read from the interface table: the interfaces of
  \<open>a\<close> that are on a network on which \<open>b\<close> has an interface too.
\<close>

definition link_interface :: "string \<Rightarrow> string \<Rightarrow> string list" where
  "link_interface a b =
     (case (map_of ROUTERS a, map_of ROUTERS b) of
        (Some ca, Some cb) \<Rightarrow>
          map fst (filter (\<lambda>(i, c). iface_network c \<in> set (map (\<lambda>(j, d). iface_network d) (interfaces cb)))
                     (interfaces ca))
      | _ \<Rightarrow> [])"

text \<open>
  The cost commands for router \<open>a\<close>'s end of its link to router \<open>b\<close>.
\<close>

definition on_link :: "string \<Rightarrow> string \<Rightarrow> int \<Rightarrow> event list" where
  "on_link a b w = map (\<lambda>i. cost_cmd a i w) (link_interface a b)"

text \<open>
  The commands and waits of one OSPF configuration, for the cost \<open>n\<close> of the
  northern links and the cost \<open>so\<close> of the southern links.
\<close>

definition configure_ospf_plan :: "int \<Rightarrow> int \<Rightarrow> event list" where
  "configure_ospf_plan n so =
     [basic_cmd ''r1'' ''192.168.1.1'' [''10.0.14.0/24'', ''10.0.10.0/24'', ''10.0.13.0/24''],
      cost_cmd ''r1'' ''eth1'' n, cost_cmd ''r1'' ''eth2'' so,
      basic_cmd ''r2'' ''192.168.1.2'' [''10.0.10.0/24'', ''10.0.11.0/24''],
      cost_cmd ''r2'' ''eth0'' n, cost_cmd ''r2'' ''eth1'' n,
      basic_cmd ''r3'' ''192.168.1.3'' [''10.0.11.0/24'', ''10.0.12.0/24'', ''10.0.15.0/24''],
      cost_cmd ''r3'' ''eth0'' n, cost_cmd ''r3'' ''eth1'' so,
      basic_cmd ''r4'' ''192.168.1.4'' [''10.0.13.0/24'', ''10.0.12.0/24''],
      cost_cmd ''r4'' ''eth0'' so, cost_cmd ''r4'' ''eth1'' so,
      Sleep 5]"


text \<open>
  The two paths of the topology, each as the ends of its links (a router and the
  neighbour on the other side): the northern path is R1-R2-R3, the southern path is
  R1-R4-R3. A switch from \<open>origin\<close> to \<open>dest\<close> that makes before it breaks
  lowers the cost at every end of the destination path, waits, raises the cost at
  every end of the origin path and waits again.
\<close>

definition path_ends :: "string \<Rightarrow> (string \<times> string) list" where
  "path_ends p =
     (if p = ''north'' then [(''r1'', ''r2''), (''r2'', ''r1''), (''r2'', ''r3''), (''r3'', ''r2'')]
      else if p = ''south'' then [(''r1'', ''r4''), (''r4'', ''r1''), (''r3'', ''r4''), (''r4'', ''r3'')]
      else [])"

definition make_before_break :: "string \<Rightarrow> string \<Rightarrow> event list" where
  "make_before_break origin dest =
     concat (map (\<lambda>(a, b). on_link a b 10) (path_ends dest)) @ [Sleep 5] @
     concat (map (\<lambda>(a, b). on_link a b 100) (path_ends origin)) @ [Sleep 5]"

text \<open>
  A command run in container \<open>c\<close>, and the nine commands that install FRR there.
\<close>

definition in_container :: "string \<Rightarrow> string list \<Rightarrow> event" where
  "in_container c cmd = Spawn ([''docker'', ''exec'', c] @ cmd)"

definition install_frr_plan :: "string \<Rightarrow> event list" where
  "install_frr_plan c =
     [in_container c [''apt-get'', ''update''],
      in_container c [''apt'', ''-y'', ''install'', ''curl'', ''gnupg'', ''lsb-release''],
      in_container c [''bash'', ''-c'',
        ''curl -s https://deb.frrouting.org/frr/keys.gpg | tee /usr/share/keyrings/frrouting.gpg > /dev/null''],
      in_container c [''bash'', ''-c'', repo_cmd],
      in_container c [''apt'', ''update''],
      in_container c [''apt'', ''-y'', ''install'', ''frr'', ''frr-pythontools''],
      in_container c [''sed'', ''-i'', ''s/ospfd=no/ospfd=yes/g'', ''/etc/frr/daemons''],
      in_container c [''service'', ''frr'', ''restart''],
      in_container c [''bash'', ''-c'', ''pgrep ospfd'']]"

text \<open>
  The commands and waits that \<open>m\<close> adds to the trace when it is run from \<open>s\<close>.
\<close>

definition issued :: "'a prog \<Rightarrow> state \<Rightarrow> event list" where
  "issued m s = drop (length (cmds s)) (cmds (snd (m s)))"

section \<open>What the operations leave alone\<close>

text \<open>
  The events of the trace that concern background children and signal handlers, and
  \<open>keeps m\<close>: \<open>m\<close> leaves the module globals, the SIGINT handler and the
  children as they are and adds no such event, whatever its result.
\<close>

fun is_bg :: "event \<Rightarrow> bool" where
  "is_bg (Popen argv) = True"
| "is_bg (Install_sigint h) = True"
| "is_bg (Terminate p) = True"
| "is_bg e = False"

definition keeps :: "'a prog \<Rightarrow> bool" where
  "keeps m \<longleftrightarrow>
     (\<forall>s. globals (snd (m s)) = globals s \<and>
          sigint_handler (snd (m s)) = sigint_handler s \<and>
          children (snd (m s)) = children s \<and>
          filter is_bg (trace (snd (m s))) = filter is_bg (trace s))"

section \<open>Interrupting the continuous ping\<close>

definition ping_argv :: "string list" where
  "ping_argv = [''docker'', ''exec'', ''hosta'', ''ping'', ''10.0.15.3'']"

text \<open>
  The outside sends \<open>k\<close> lines of ping output and then a SIGINT.
\<close>

definition interrupted_after :: "nat \<Rightarrow> state \<Rightarrow> bool" where
  "interrupted_after k s \<longleftrightarrow>
     (\<forall>i<k. \<exists>l. ping_feed s (ping_pos s + i) = Line l) \<and>
     ping_feed s (ping_pos s + k) = Sigint"

text \<open>
  The parsed command line of \<open>--continuous-ping\<close> alone.
\<close>

definition only_continuous_ping :: args where
  "only_continuous_ping =
     \<lparr>arg_start = False, arg_stop = False, arg_setup = False, arg_use_north = False,
      arg_use_south = False, arg_switch_to_north = False, arg_switch_to_south = False,
      arg_show_routes = False, arg_show_neighbors = False, arg_traceroute = False,
      arg_ping = False, arg_continuous_ping = True, argc = 2\<rparr>"

section \<open>The helper: results\<close>

lemma run_command_nonzero:
  assumes "world s (tick s) = Exited rc out err" and "rc \<noteq> 0"
  shows "run_command cmd c s =
           (Inr None,
            s\<lparr>trace := trace s @
                 [Spawn (full_cmd cmd c),
                  Print (''Error executing command: '' @ join '' '' (full_cmd cmd c)),
                  Print (''Exit code: '' @ str_int rc),
                  Print (''Error output: '' @ translate_newlines err)],
              tick := tick s + 1\<rparr>)"
  using assms
  by (simp add: run_command_def try_except_def bind_def subprocess_run_def Let_def
      seq_def print_def emit_def return_def)

lemma run_command_zero:
  assumes "world s (tick s) = Exited 0 out err"
  shows "run_command cmd c s =
           (Inr (Some (strip (translate_newlines out))),
            s\<lparr>trace := trace s @ [Spawn (full_cmd cmd c)], tick := tick s + 1\<rparr>)"
  using assms
  by (simp add: run_command_def try_except_def bind_def subprocess_run_def Let_def
      seq_def print_def emit_def return_def)

lemma run_command_not_started:
  assumes "world s (tick s) = Not_started"
  shows "run_command cmd c s =
           (Inl OS_error,
            s\<lparr>trace := trace s @ [Spawn (full_cmd cmd c)], tick := tick s + 1\<rparr>)"
  using assms
  by (simp add: run_command_def try_except_def bind_def subprocess_run_def Let_def
      seq_def print_def emit_def return_def)

lemma run_command_undecodable:
  assumes "world s (tick s) = Undecodable rc"
  shows "run_command cmd c s =
           (Inl Unicode_decode_error,
            s\<lparr>trace := trace s @ [Spawn (full_cmd cmd c)], tick := tick s + 1\<rparr>)"
  using assms
  by (simp add: run_command_def try_except_def bind_def subprocess_run_def Let_def
      seq_def print_def emit_def return_def)

lemma run_command_trace:
  "\<exists>msgs. trace (snd (run_command cmd c s)) = trace s @ Spawn (full_cmd cmd c) # map Print msgs"
proof (cases "world s (tick s)")
  case (Exited rc out err)
  show ?thesis
  proof (cases "rc = 0")
    case True
    with Exited have "trace (snd (run_command cmd c s)) = trace s @ Spawn (full_cmd cmd c) # map Print []"
      by (simp add: run_command_zero)
    then show ?thesis by blast
  next
    case False
    with Exited have "trace (snd (run_command cmd c s)) =
        trace s @ Spawn (full_cmd cmd c) #
          map Print [''Error executing command: '' @ join '' '' (full_cmd cmd c),
                     ''Exit code: '' @ str_int rc,
                     ''Error output: '' @ translate_newlines err]"
      by (simp add: run_command_nonzero)
    then show ?thesis by blast
  qed
next
  case (Undecodable rc)
  then have "trace (snd (run_command cmd c s)) = trace s @ Spawn (full_cmd cmd c) # map Print []"
    by (simp add: run_command_undecodable)
  then show ?thesis by blast
next
  case Not_started
  then have "trace (snd (run_command cmd c s)) = trace s @ Spawn (full_cmd cmd c) # map Print []"
    by (simp add: run_command_not_started)
  then show ?thesis by blast
qed

text \<open>
  C7. For every router name, interface name and weight, \<open>set_ospf_weight\<close> makes
  exactly one process invocation, whatever becomes of it: \<open>docker exec r vtysh\<close>
  with the six \<open>-c\<close> arguments "configure terminal", "interface i",
  "ip ospf cost w", "exit", "end", "write memory", in this order. Everything else it
  does is printing (the error report of the helper).
\<close>

theorem set_ospf_weight_invocation:
  "\<exists>msgs. trace (snd (set_ospf_weight r i w s)) =
     trace s @
     Spawn [''docker'', ''exec'', r, ''vtysh'',
            ''-c'', ''configure terminal'',
            ''-c'', ''interface '' @ i,
            ''-c'', ''ip ospf cost '' @ str_int w,
            ''-c'', ''exit'',
            ''-c'', ''end'',
            ''-c'', ''write memory''] # map Print msgs"
proof -
  let ?argv = "[''docker'', ''exec'', r, ''vtysh'',
            ''-c'', ''configure terminal'',
            ''-c'', ''interface '' @ i,
            ''-c'', ''ip ospf cost '' @ str_int w,
            ''-c'', ''exit'',
            ''-c'', ''end'',
            ''-c'', ''write memory'']"
  have "snd (set_ospf_weight r i w s) = snd (run_command ?argv None s)"
    by (simp add: set_ospf_weight_def discard_def bind_def return_def split: prod.split sum.split)
  moreover have "full_cmd ?argv None = ?argv"
    by (simp add: full_cmd_def truthy_def)
  ultimately show ?thesis
    using run_command_trace [of ?argv None s] by simp
qed

text \<open>
  C8. For every command list, \<open>run_command\<close> runs the list as it is when the
  container argument is \<open>None\<close>, and runs \<open>["docker", "exec", container] + cmd\<close>
  when a container name is given. (The test in the code is the truth value of the
  argument, so a name is a nonempty string.)
\<close>

theorem run_command_target:
  "(\<exists>msgs. trace (snd (run_command cmd None s)) = trace s @ Spawn cmd # map Print msgs) \<and>
   (name \<noteq> [] \<longrightarrow>
      (\<exists>msgs. trace (snd (run_command cmd (Some name) s)) =
         trace s @ Spawn ([''docker'', ''exec'', name] @ cmd) # map Print msgs))"
proof -
  have "full_cmd cmd None = cmd"
    by (simp add: full_cmd_def truthy_def)
  moreover have "name \<noteq> [] \<Longrightarrow> full_cmd cmd (Some name) = [''docker'', ''exec'', name] @ cmd"
    by (simp add: full_cmd_def truthy_def)
  ultimately show ?thesis
    using run_command_trace [of cmd None s] run_command_trace [of cmd "Some name" s]
    by auto
qed

theorem run_command_target_witness:
  "''r1'' \<noteq> [] \<and>
   (\<exists>msgs. trace (snd (run_command [''vtysh'', ''-c'', ''show ip route ospf''] (Some ''r1'')
                         (initial (\<lambda>n. Exited 0 ''ok'' []) True (\<lambda>n. Eof)))) =
      trace (initial (\<lambda>n. Exited 0 ''ok'' []) True (\<lambda>n. Eof)) @
      Spawn [''docker'', ''exec'', ''r1'', ''vtysh'', ''-c'', ''show ip route ospf''] #
      map Print msgs)"
  using run_command_target [of "[''vtysh'', ''-c'', ''show ip route ospf'']"
      "initial (\<lambda>n. Exited 0 ''ok'' []) True (\<lambda>n. Eof)" "''r1''"]
  by simp

text \<open>An empty string as container argument counts as no container.\<close>

lemma run_command_empty_name:
  "\<exists>msgs. trace (snd (run_command cmd (Some []) s)) = trace s @ Spawn cmd # map Print msgs"
  using run_command_trace [of cmd "Some []" s] by (simp add: full_cmd_def truthy_def)

text \<open>
  C4, as stated, says that \<open>run_command\<close> returns \<open>None\<close> whenever the process
  starts and ends with a nonzero return code. A process that starts, writes bytes
  that cannot be decoded and ends with return code 1 is not such a case: the
  \<open>UnicodeDecodeError\<close> of text mode is raised before the return code is checked,
  and it is not caught.
\<close>

theorem run_command_undecodable_not_none:
  "world (initial (\<lambda>n. Undecodable 1) True (\<lambda>n. Eof))
     (tick (initial (\<lambda>n. Undecodable 1) True (\<lambda>n. Eof))) = Undecodable 1 \<and>
   fst (run_command [''bash'', ''-c'', ''pgrep ospfd''] (Some ''r1'')
          (initial (\<lambda>n. Undecodable 1) True (\<lambda>n. Eof))) = Inl Unicode_decode_error \<and>
   fst (run_command [''bash'', ''-c'', ''pgrep ospfd''] (Some ''r1'')
          (initial (\<lambda>n. Undecodable 1) True (\<lambda>n. Eof))) \<noteq> Inr None"
  by (simp add: run_command_undecodable initial_def)

text \<open>
  C4, amended. \<open>run_command\<close> returns \<open>None\<close> exactly when the process was
  started, what it wrote could be decoded, and it ended with a nonzero return code.
  When no process could be started, and likewise when the output of the process
  cannot be decoded, the exception leaves \<open>run_command\<close>: nothing is printed and
  nothing is returned.
\<close>

theorem run_command_none_iff:
  "(fst (run_command cmd c s) = Inr None) =
     (\<exists>rc out err. world s (tick s) = Exited rc out err \<and> rc \<noteq> 0) \<and>
   (world s (tick s) = Not_started \<longrightarrow>
      run_command cmd c s =
        (Inl OS_error,
         s\<lparr>trace := trace s @ [Spawn (full_cmd cmd c)], tick := tick s + 1\<rparr>)) \<and>
   (world s (tick s) = Undecodable rc' \<longrightarrow>
      run_command cmd c s =
        (Inl Unicode_decode_error,
         s\<lparr>trace := trace s @ [Spawn (full_cmd cmd c)], tick := tick s + 1\<rparr>))"
proof (cases "world s (tick s)")
  case (Exited rc out err)
  then show ?thesis
    by (cases "rc = 0") (simp_all add: run_command_zero run_command_nonzero)
next
  case (Undecodable rc)
  then show ?thesis
    by (simp add: run_command_undecodable)
next
  case Not_started
  then show ?thesis
    by (simp add: run_command_not_started)
qed

theorem run_command_none_iff_witness:
  "world (initial (\<lambda>n. Not_started) True (\<lambda>n. Eof))
     (tick (initial (\<lambda>n. Not_started) True (\<lambda>n. Eof))) = Not_started \<and>
   run_command [''docker'', ''compose'', ''up'', ''-d''] None
     (initial (\<lambda>n. Not_started) True (\<lambda>n. Eof)) =
     (Inl OS_error,
      (initial (\<lambda>n. Not_started) True (\<lambda>n. Eof))
        \<lparr>trace := [Spawn [''docker'', ''compose'', ''up'', ''-d'']], tick := 1\<rparr>) \<and>
   world (initial (\<lambda>n. Undecodable 0) True (\<lambda>n. Eof))
     (tick (initial (\<lambda>n. Undecodable 0) True (\<lambda>n. Eof))) = Undecodable 0 \<and>
   run_command [''docker'', ''compose'', ''up'', ''-d''] None
     (initial (\<lambda>n. Undecodable 0) True (\<lambda>n. Eof)) =
     (Inl Unicode_decode_error,
      (initial (\<lambda>n. Undecodable 0) True (\<lambda>n. Eof))
        \<lparr>trace := [Spawn [''docker'', ''compose'', ''up'', ''-d'']], tick := 1\<rparr>)"
  using run_command_none_iff [of "[''docker'', ''compose'', ''up'', ''-d'']" None
      "initial (\<lambda>n. Not_started) True (\<lambda>n. Eof)" 0]
    run_command_none_iff [of "[''docker'', ''compose'', ''up'', ''-d'']" None
      "initial (\<lambda>n. Undecodable 0) True (\<lambda>n. Eof)" 0]
  by (simp add: initial_def full_cmd_def truthy_def)

section \<open>Commands and waits of the operations\<close>

lemma runs_weaken: "runs m cs \<Longrightarrow> cs = ds \<Longrightarrow> runs m ds"
  by simp

lemma runs_return: "runs (return a) []"
  by (simp add: runs_def return_def)

lemma runs_bind:
  assumes m: "runs m cs" and f: "\<And>a. runs (f a) ds"
  shows "runs (bind m f) (cs @ ds)"
  unfolding runs_def
proof (intro allI impI)
  fix s assume l: "loaded s"
  obtain r s1 where ms: "m s = (r, s1)" by (cases "m s")
  show "case bind m f s of
          (Inr a, s') \<Rightarrow> loaded s' \<and> world s' = world s \<and> cmds s' = cmds s @ cs @ ds
        | (Inl e, s') \<Rightarrow> (e = OS_error \<or> e = Unicode_decode_error) \<and> \<not> all_complete s \<and>
             (\<exists>pre suf. cmds s' = cmds s @ pre \<and> cs @ ds = pre @ suf)"
  proof (cases r)
    case (Inl e)
    with m l ms show ?thesis
      by (fastforce simp: runs_def bind_def)
  next
    case (Inr a)
    with m l ms have s1: "loaded s1" "world s1 = world s" "cmds s1 = cmds s @ cs"
      by (auto simp: runs_def)
    obtain r2 s2 where fs: "f a s1 = (r2, s2)" by (cases "f a s1")
    show ?thesis
    proof (cases r2)
      case (Inl e)
      with f [of a] s1 fs have "e = OS_error \<or> e = Unicode_decode_error" "\<not> all_complete s1"
        "\<exists>pre suf. cmds s2 = cmds s1 @ pre \<and> ds = pre @ suf"
        by (auto simp: runs_def)
      then obtain pre suf where "cmds s2 = cmds s @ (cs @ pre)" "cs @ ds = (cs @ pre) @ suf"
        using s1 by auto
      then have "\<exists>pre suf. cmds s2 = cmds s @ pre \<and> cs @ ds = pre @ suf"
        by blast
      with \<open>e = OS_error \<or> e = Unicode_decode_error\<close> \<open>\<not> all_complete s1\<close> s1 ms fs Inl
        \<open>r = Inr a\<close> show ?thesis
        by (simp add: bind_def all_complete_def)
    next
      case (Inr b)
      with f [of a] s1 fs have "loaded s2" "world s2 = world s1" "cmds s2 = cmds s1 @ ds"
        by (auto simp: runs_def)
      with s1 ms fs Inr \<open>r = Inr a\<close> show ?thesis
        by (simp add: bind_def)
    qed
  qed
qed

lemma runs_seq: "runs m cs \<Longrightarrow> runs n ds \<Longrightarrow> runs (seq m n) (cs @ ds)"
  unfolding seq_def by (rule runs_bind)

lemma runs_discard: "runs m cs \<Longrightarrow> runs (discard m) cs"
  unfolding discard_def using runs_bind [of m cs "\<lambda>_. return ()" "[]"]
  by (simp add: runs_return)

lemma runs_block_Nil: "runs (block []) []"
  by (simp add: runs_return)

lemma runs_block_Cons: "runs m cs \<Longrightarrow> runs (block ms) ds \<Longrightarrow> runs (block (m # ms)) (cs @ ds)"
  by (simp add: runs_seq)

lemma runs_print: "runs (print msg) []"
  by (simp add: runs_def print_def emit_def loaded_def cmds_def)

lemma runs_print_or: "runs (print_or out msg) []"
  by (simp add: print_or_def runs_print)

lemma runs_sleep: "runs (sleep n) [Sleep n]"
  by (simp add: runs_def sleep_def emit_def loaded_def cmds_def)

lemma runs_if: "runs a cs \<Longrightarrow> runs b cs \<Longrightarrow> runs (if c then a else b) cs"
  by simp

lemma runs_read_globals: "runs (f module_init) cs \<Longrightarrow> runs (bind read_globals f) cs"
  by (simp add: runs_def bind_def read_globals_def loaded_def)

lemma runs_run_command: "runs (run_command cmd c) [Spawn (full_cmd cmd c)]"
  unfolding runs_def
proof (intro allI impI)
  fix s assume l: "loaded s"
  show "case run_command cmd c s of
          (Inr a, s') \<Rightarrow> loaded s' \<and> world s' = world s \<and> cmds s' = cmds s @ [Spawn (full_cmd cmd c)]
        | (Inl e, s') \<Rightarrow> (e = OS_error \<or> e = Unicode_decode_error) \<and> \<not> all_complete s \<and>
            (\<exists>pre suf. cmds s' = cmds s @ pre \<and> [Spawn (full_cmd cmd c)] = pre @ suf)"
  proof (cases "world s (tick s)")
    case (Exited rc out err)
    with l show ?thesis
      by (cases "rc = 0")
        (simp_all add: run_command_zero run_command_nonzero loaded_def cmds_def)
  next
    case (Undecodable rc)
    have "\<not> all_complete s"
    proof
      assume "all_complete s"
      then obtain rc' out err where "world s (tick s) = Exited rc' out err"
        unfolding all_complete_def by blast
      with Undecodable show False by simp
    qed
    with Undecodable l show ?thesis
      by (simp add: run_command_undecodable loaded_def cmds_def)
  next
    case Not_started
    have "\<not> all_complete s"
    proof
      assume "all_complete s"
      then obtain rc' out err where "world s (tick s) = Exited rc' out err"
        unfolding all_complete_def by blast
      with Not_started show False by simp
    qed
    with Not_started l show ?thesis
      by (simp add: run_command_not_started loaded_def cmds_def)
  qed
qed

lemma runs_bind_run_command:
  "(\<And>a. runs (f a) ds) \<Longrightarrow> runs (bind (run_command cmd c) f) (Spawn (full_cmd cmd c) # ds)"
  using runs_bind [OF runs_run_command, of f ds cmd c] by simp

lemmas runs_intros = runs_return runs_seq runs_discard runs_block_Nil runs_block_Cons
  runs_print runs_print_or runs_sleep runs_run_command runs_bind_run_command runs_if

lemma runs_set_ospf_weight: "runs (set_ospf_weight r i w) [cost_cmd r i w]"
  unfolding set_ospf_weight_def Let_def
  apply (rule runs_weaken)
   apply (rule runs_intros)+
  apply (simp add: full_cmd_def truthy_def cost_cmd_def)
  done

lemma foldl_append_concat: "foldl (\<lambda>acc x. acc @ g x) init xs = init @ concat (map g xs)"
  by (induction xs arbitrary: init) simp_all

lemma runs_configure_basic_ospf:
  "r \<noteq> [] \<Longrightarrow> runs (configure_basic_ospf r c) [basic_cmd r (router_id c) (networks c)]"
  unfolding configure_basic_ospf_def Let_def
  apply (rule runs_weaken)
   apply (rule runs_intros)+
  apply (simp add: full_cmd_def truthy_def basic_cmd_def foldl_append_concat)
  done

lemma runs_router_entry:
  assumes "map_of ROUTERS r = Some c" and "runs (f c) cs"
  shows "runs (bind (router_entry r) f) cs"
proof -
  have "bind (router_entry r) f s = f c s" if "loaded s" for s
    using that assms(1)
    by (simp add: router_entry_def bind_def read_globals_def lookup_def return_def
        loaded_def module_init_def)
  with assms(2) show ?thesis
    by (simp add: runs_def)
qed

lemma runs_entry_weight:
  assumes "map_of ROUTERS r = Some c"
  shows "runs (bind (router_entry r) (\<lambda>c. set_ospf_weight r (side c) w)) [cost_cmd r (side c) w]"
  using assms by (rule runs_router_entry) (rule runs_set_ospf_weight)

lemma runs_set_side:
  assumes "map_of ROUTERS r = Some c"
  shows "runs (set_side r side W) [cost_cmd r (side c) (W module_init)]"
  unfolding set_side_def
  using assms by (rule runs_router_entry) (rule runs_read_globals, rule runs_set_ospf_weight)

lemma runs_for_each:
  assumes "\<And>x. x \<in> set xs \<Longrightarrow> runs (body x) (plan x)"
  shows "runs (for_each xs body) (concat (map plan xs))"
  using assms unfolding for_each_def
  by (induction xs) (simp_all add: runs_return runs_seq)

lemma entry_r1: "map_of ROUTERS ''r1'' = Some (snd (ROUTERS ! 0))"
  and entry_r2: "map_of ROUTERS ''r2'' = Some (snd (ROUTERS ! 1))"
  and entry_r3: "map_of ROUTERS ''r3'' = Some (snd (ROUTERS ! 2))"
  and entry_r4: "map_of ROUTERS ''r4'' = Some (snd (ROUTERS ! 3))"
  by (simp_all add: ROUTERS_def)

lemmas runs_side =
  runs_set_side [OF entry_r1] runs_set_side [OF entry_r2]
  runs_set_side [OF entry_r3] runs_set_side [OF entry_r4]

lemmas runs_entry =
  runs_entry_weight [OF entry_r1] runs_entry_weight [OF entry_r2]
  runs_entry_weight [OF entry_r3] runs_entry_weight [OF entry_r4]

lemma runs_switch_north_south:
  "runs (switch_traffic_path ''north'' ''south'')
     [cost_cmd ''r1'' ''eth2'' 10, cost_cmd ''r4'' ''eth0'' 10,
      cost_cmd ''r3'' ''eth1'' 10, cost_cmd ''r4'' ''eth1'' 10,
      Sleep 5,
      cost_cmd ''r1'' ''eth1'' 100, cost_cmd ''r2'' ''eth0'' 100,
      cost_cmd ''r2'' ''eth1'' 100, cost_cmd ''r3'' ''eth0'' 100,
      Sleep 5]"
  unfolding switch_traffic_path_def
  apply (simp only: if_True simp_thms)
  apply (rule runs_weaken)
   apply (rule runs_intros runs_side)+
  apply (simp add: ROUTERS_def module_init_def DEFAULT_WEIGHT_def HIGH_WEIGHT_def)
  done

lemma runs_switch_south_north:
  "runs (switch_traffic_path ''south'' ''north'')
     [cost_cmd ''r1'' ''eth1'' 10, cost_cmd ''r2'' ''eth0'' 10,
      cost_cmd ''r2'' ''eth1'' 10, cost_cmd ''r3'' ''eth0'' 10,
      Sleep 5,
      cost_cmd ''r1'' ''eth2'' 100, cost_cmd ''r4'' ''eth0'' 100,
      cost_cmd ''r3'' ''eth1'' 100, cost_cmd ''r4'' ''eth1'' 100,
      Sleep 5]"
  unfolding switch_traffic_path_def
  apply (simp only: if_True if_False simp_thms list.inject char.inject)
  apply (rule runs_weaken)
   apply (rule runs_intros runs_side)+
  apply (simp add: ROUTERS_def module_init_def DEFAULT_WEIGHT_def HIGH_WEIGHT_def)
  done

lemma runs_switch_other:
  assumes "\<not> (f = ''north'' \<and> t = ''south'')" and "\<not> (f = ''south'' \<and> t = ''north'')"
  shows "runs (switch_traffic_path f t) [Sleep 5]"
  unfolding switch_traffic_path_def
  apply (simp only: assms if_False)
  apply (rule runs_weaken)
   apply (rule runs_intros)+
  apply simp
  done

lemma runs_configure_ospf:
  "runs (configure_ospf path)
     (configure_ospf_plan (if path = ''north'' then 10 else 100) (if path = ''north'' then 100 else 10))"
  unfolding configure_ospf_def
  apply (rule runs_weaken)
   apply (rule runs_seq)
    apply (rule runs_print)
   apply (rule runs_read_globals)
   apply (simp only: Let_def for_each_def module_init_def module_globals.simps ROUTERS_def
      list.map prod.case)
   apply (simp only: if_True if_False simp_thms list.inject char.inject)
   apply (rule runs_intros runs_entry runs_configure_basic_ospf list.distinct)+
  apply (simp_all add: ROUTERS_def DEFAULT_WEIGHT_def HIGH_WEIGHT_def configure_ospf_plan_def)
  done

lemma runs_start_containers:
  "runs start_containers [Spawn [''docker'', ''compose'', ''up'', ''-d''], Sleep 5]"
  unfolding start_containers_def
  apply (rule runs_weaken)
   apply (rule runs_intros)+
  apply (simp add: full_cmd_def truthy_def)
  done

lemma runs_stop_containers:
  "runs stop_containers [Spawn [''docker'', ''compose'', ''down'']]"
  unfolding stop_containers_def
  apply (rule runs_weaken)
   apply (rule runs_intros)+
  apply (simp add: full_cmd_def truthy_def)
  done

lemma runs_install_frr:
  assumes "c \<noteq> []"
  shows "runs (install_frr c) (install_frr_plan c)"
  unfolding install_frr_def
  apply (rule runs_weaken)
   apply (rule runs_intros)+
  apply (simp add: full_cmd_def truthy_def install_frr_plan_def in_container_def assms)
  done

lemma runs_install_frr_all:
  "runs (perform Install_frr_all)
     (install_frr_plan ''r1'' @ install_frr_plan ''r2'' @
      install_frr_plan ''r3'' @ install_frr_plan ''r4'')"
  unfolding perform.simps
  apply (rule runs_weaken)
   apply (rule runs_read_globals)
   apply (simp only: for_each_def module_init_def module_globals.simps ROUTERS_def
      list.map fst_conv)
   apply (rule runs_intros runs_install_frr list.distinct)+
  apply simp
  done

lemma runs_setup_host_routes:
  "runs setup_host_routes
     [in_container ''hosta'' [''ip'', ''route'', ''add'', ''10.0.15.0/24'', ''via'', ''10.0.14.4''],
      in_container ''hostb'' [''ip'', ''route'', ''add'', ''10.0.14.0/24'', ''via'', ''10.0.15.4'']]"
  unfolding setup_host_routes_def
  apply (rule runs_weaken)
   apply (rule runs_block_Cons)
    apply (rule runs_print)
   apply (rule runs_block_Cons)
    apply (rule runs_read_globals)
    apply (simp only: for_each_def module_init_def module_globals.simps HOSTS_def
      list.map prod.case)
    apply (rule runs_intros)+
  apply (simp add: full_cmd_def truthy_def in_container_def)
  done

lemma runs_show_routing_tables:
  "runs show_routing_tables
     (map (\<lambda>r. in_container r [''vtysh'', ''-c'', ''show ip route ospf''])
        [''r1'', ''r2'', ''r3'', ''r4''])"
  unfolding show_routing_tables_def
  apply (rule runs_weaken)
   apply (rule runs_read_globals)
   apply (simp only: for_each_def module_init_def module_globals.simps ROUTERS_def
      list.map fst_conv)
   apply (rule runs_intros)+
  apply (simp add: full_cmd_def truthy_def in_container_def)
  done

lemma runs_show_ospf_neighbors:
  "runs show_ospf_neighbors
     (map (\<lambda>r. in_container r [''vtysh'', ''-c'', ''show ip ospf neighbor''])
        [''r1'', ''r2'', ''r3'', ''r4''])"
  unfolding show_ospf_neighbors_def
  apply (rule runs_weaken)
   apply (rule runs_read_globals)
   apply (simp only: for_each_def module_init_def module_globals.simps ROUTERS_def
      list.map fst_conv)
   apply (rule runs_intros)+
  apply (simp add: full_cmd_def truthy_def in_container_def)
  done

lemma runs_trace_route:
  "runs trace_route [in_container ''hosta'' [''traceroute'', ''-n'', ''10.0.15.3'']]"
  unfolding trace_route_def
  apply (rule runs_weaken)
   apply (rule runs_intros)+
  apply (simp add: full_cmd_def truthy_def in_container_def)
  done

lemma runs_ping_test:
  "runs (ping_test n) [in_container ''hosta'' [''ping'', ''-c'', str_int n, ''10.0.15.3'']]"
  unfolding ping_test_def
  apply (rule runs_weaken)
   apply (rule runs_intros)+
  apply (simp add: full_cmd_def truthy_def in_container_def)
  done

lemma runs_switch_traffic_path: "\<exists>cs. runs (switch_traffic_path f t) cs"
proof (cases "f = ''north'' \<and> t = ''south''")
  case True
  then show ?thesis using runs_switch_north_south by blast
next
  case ns: False
  show ?thesis
  proof (cases "f = ''south'' \<and> t = ''north''")
    case True
    then show ?thesis using runs_switch_south_north by blast
  next
    case False
    with ns show ?thesis using runs_switch_other by blast
  qed
qed

lemma runs_perform: "\<exists>cs. runs (perform c) cs"
proof (cases c)
  case Start_containers
  then show ?thesis using runs_start_containers by auto
next
  case Stop_containers
  then show ?thesis using runs_stop_containers by auto
next
  case Install_frr_all
  then show ?thesis using runs_install_frr_all by blast
next
  case (Configure_ospf path)
  then show ?thesis using runs_configure_ospf by auto
next
  case Setup_host_routes
  then show ?thesis using runs_setup_host_routes by auto
next
  case (Say msg)
  then show ?thesis using runs_print by auto
next
  case (Switch_traffic_path f t)
  then show ?thesis using runs_switch_traffic_path by auto
next
  case Show_routing_tables
  then show ?thesis using runs_show_routing_tables by auto
next
  case Show_ospf_neighbors
  then show ?thesis using runs_show_ospf_neighbors by auto
next
  case Trace_route
  then show ?thesis using runs_trace_route by auto
next
  case Ping_test
  then show ?thesis using runs_ping_test by auto
qed

section \<open>From the rules to single runs\<close>

text \<open>
  When every process starts, an operation returns and has issued its whole list; in
  any case it has issued a prefix of the list.
\<close>

lemma runs_returns:
  assumes "runs m cs" and "loaded s" and "all_complete s"
  shows "\<exists>a s'. m s = (Inr a, s') \<and> cmds s' = cmds s @ cs \<and> loaded s' \<and> all_complete s'"
proof -
  obtain r s' where ms: "m s = (r, s')" by (cases "m s")
  show ?thesis
  proof (cases r)
    case (Inl e)
    with assms ms show ?thesis by (auto simp: runs_def)
  next
    case (Inr a)
    with assms ms have "loaded s'" "world s' = world s" "cmds s' = cmds s @ cs"
      by (auto simp: runs_def)
    with assms(3) ms Inr show ?thesis by (simp add: all_complete_def)
  qed
qed

lemma runs_prefix:
  assumes "runs m cs" and "loaded s"
  shows "\<exists>pre suf. cmds (snd (m s)) = cmds s @ pre \<and> cs = pre @ suf"
proof -
  obtain r s' where ms: "m s = (r, s')" by (cases "m s")
  show ?thesis
  proof (cases r)
    case (Inl e)
    with assms ms show ?thesis by (auto simp: runs_def)
  next
    case (Inr a)
    with assms ms have "cmds s' = cmds s @ cs" by (auto simp: runs_def)
    with ms show ?thesis by auto
  qed
qed

lemma link_interfaces:
  "link_interface ''r1'' ''r2'' = [''eth1'']" "link_interface ''r2'' ''r1'' = [''eth0'']"
  "link_interface ''r2'' ''r3'' = [''eth1'']" "link_interface ''r3'' ''r2'' = [''eth0'']"
  "link_interface ''r1'' ''r4'' = [''eth2'']" "link_interface ''r4'' ''r1'' = [''eth0'']"
  "link_interface ''r3'' ''r4'' = [''eth1'']" "link_interface ''r4'' ''r3'' = [''eth1'']"
  by (simp_all add: link_interface_def ROUTERS_def)

section \<open>The frame of the operations\<close>

lemma keeps_return: "keeps (return a)"
  by (simp add: keeps_def return_def)

lemma keeps_raise: "keeps (raise e)"
  by (simp add: keeps_def raise_def)

lemma keeps_bind:
  assumes "keeps m" and "\<And>a. keeps (f a)"
  shows "keeps (bind m f)"
  unfolding keeps_def
proof
  fix s
  obtain r s1 where ms: "m s = (r, s1)" by (cases "m s")
  from assms(1) ms have s1: "globals s1 = globals s" "sigint_handler s1 = sigint_handler s"
    "children s1 = children s" "filter is_bg (trace s1) = filter is_bg (trace s)"
    by (auto simp: keeps_def dest: spec [of _ s])
  show "globals (snd (bind m f s)) = globals s \<and>
        sigint_handler (snd (bind m f s)) = sigint_handler s \<and>
        children (snd (bind m f s)) = children s \<and>
        filter is_bg (trace (snd (bind m f s))) = filter is_bg (trace s)"
  proof (cases r)
    case (Inl e)
    with ms s1 show ?thesis by (simp add: bind_def)
  next
    case (Inr a)
    with ms have "bind m f s = f a s1" by (simp add: bind_def)
    with assms(2) [of a] s1 show ?thesis by (simp add: keeps_def)
  qed
qed

lemma keeps_seq: "keeps m \<Longrightarrow> keeps n \<Longrightarrow> keeps (seq m n)"
  unfolding seq_def by (rule keeps_bind)

lemma keeps_discard: "keeps m \<Longrightarrow> keeps (discard m)"
  unfolding discard_def by (rule keeps_bind) (simp_all add: keeps_return)

lemma keeps_block_Nil: "keeps (block [])"
  by (simp add: keeps_return)

lemma keeps_block_Cons: "keeps m \<Longrightarrow> keeps (block ms) \<Longrightarrow> keeps (block (m # ms))"
  by (simp add: keeps_seq)

lemma keeps_for_each:
  assumes "\<And>x. keeps (body x)"
  shows "keeps (for_each xs body)"
  unfolding for_each_def
  by (induction xs) (simp_all add: keeps_return keeps_seq assms)

lemma keeps_if: "keeps a \<Longrightarrow> keeps b \<Longrightarrow> keeps (if c then a else b)"
  by simp

lemma keeps_case_prod: "(\<And>a b. keeps (f a b)) \<Longrightarrow> keeps (case_prod f x)"
  by (cases x) simp

lemma keeps_print: "keeps (print msg)"
  by (simp add: keeps_def print_def emit_def)

lemma keeps_print_or: "keeps (print_or out msg)"
  by (simp add: print_or_def keeps_print)

lemma keeps_sleep: "keeps (sleep n)"
  by (simp add: keeps_def sleep_def emit_def)

lemma keeps_read_globals: "keeps read_globals"
  by (simp add: keeps_def read_globals_def)

lemma keeps_lookup: "keeps (lookup d k)"
  by (simp add: lookup_def keeps_return keeps_raise split: option.split)

lemma keeps_run_command: "keeps (run_command cmd c)"
  unfolding keeps_def
proof
  fix s
  show "globals (snd (run_command cmd c s)) = globals s \<and>
        sigint_handler (snd (run_command cmd c s)) = sigint_handler s \<and>
        children (snd (run_command cmd c s)) = children s \<and>
        filter is_bg (trace (snd (run_command cmd c s))) = filter is_bg (trace s)"
  proof (cases "world s (tick s)")
    case (Exited rc out err)
    then show ?thesis
      by (cases "rc = 0") (simp_all add: run_command_zero run_command_nonzero)
  next
    case (Undecodable rc)
    then show ?thesis by (simp add: run_command_undecodable)
  next
    case Not_started
    then show ?thesis by (simp add: run_command_not_started)
  qed
qed

lemmas keeps_intros = keeps_return keeps_raise keeps_bind keeps_seq keeps_discard
  keeps_block_Nil keeps_block_Cons keeps_for_each keeps_if keeps_case_prod
  keeps_print keeps_print_or keeps_sleep keeps_read_globals keeps_lookup keeps_run_command

lemma keeps_set_ospf_weight: "keeps (set_ospf_weight r i w)"
  unfolding set_ospf_weight_def Let_def by (intro keeps_intros)

lemma keeps_router_entry: "keeps (router_entry r)"
  unfolding router_entry_def by (intro keeps_intros)

lemma keeps_set_side: "keeps (set_side r side W)"
  unfolding set_side_def by (intro keeps_intros keeps_router_entry keeps_set_ospf_weight)

lemma keeps_configure_basic_ospf: "keeps (configure_basic_ospf r c)"
  unfolding configure_basic_ospf_def Let_def by (intro keeps_intros)

lemma keeps_configure_ospf: "keeps (configure_ospf path)"
  unfolding configure_ospf_def Let_def
  by (intro keeps_intros keeps_router_entry keeps_set_ospf_weight keeps_configure_basic_ospf)

lemma keeps_switch_traffic_path: "keeps (switch_traffic_path f t)"
  unfolding switch_traffic_path_def by (intro keeps_intros keeps_set_side)

lemma keeps_start_containers: "keeps start_containers"
  unfolding start_containers_def by (intro keeps_intros)

lemma keeps_stop_containers: "keeps stop_containers"
  unfolding stop_containers_def by (intro keeps_intros)

lemma keeps_install_frr: "keeps (install_frr c)"
  unfolding install_frr_def by (intro keeps_intros)

lemma keeps_setup_host_routes: "keeps setup_host_routes"
  unfolding setup_host_routes_def by (intro keeps_intros)

lemma keeps_show_routing_tables: "keeps show_routing_tables"
  unfolding show_routing_tables_def by (intro keeps_intros)

lemma keeps_show_ospf_neighbors: "keeps show_ospf_neighbors"
  unfolding show_ospf_neighbors_def by (intro keeps_intros)

lemma keeps_trace_route: "keeps trace_route"
  unfolding trace_route_def by (intro keeps_intros)

lemma keeps_ping_test: "keeps (ping_test n)"
  unfolding ping_test_def by (intro keeps_intros)

lemma keeps_perform: "keeps (perform c)"
  by (cases c)
    (simp_all add: keeps_start_containers keeps_stop_containers keeps_configure_ospf
      keeps_setup_host_routes keeps_print keeps_switch_traffic_path keeps_show_routing_tables
      keeps_show_ospf_neighbors keeps_trace_route keeps_ping_test keeps_install_frr
      keeps_bind keeps_read_globals keeps_for_each)

lemma keeps_main_calls: "keeps (for_each (main_calls a) perform)"
  by (rule keeps_for_each) (rule keeps_perform)

section \<open>The ping loop\<close>

lemma keeps_globals: "keeps m \<Longrightarrow> globals (snd (m s)) = globals s"
  by (simp add: keeps_def)

lemma deliver_sigint_globals: "globals (snd (deliver_sigint s)) = globals s"
  by (simp add: deliver_sigint_def raise_def signal_handler_def seq_def bind_def print_def
      emit_def split: handler.split)

lemma ping_loop_globals:
  assumes "ping_loop s = Some (r, s')"
  shows "globals s' = globals s"
proof -
  have "ping_loop s = Some y \<Longrightarrow> globals (snd y) = globals s" for y
  proof (induct rule: ping_loop.raw_induct [rotated, consumes 1, case_names step])
    case (step loop s y)
    note 1 = step
    show ?case
    proof (cases "ping_feed s (ping_pos s)")
      case (Line line)
      with 1(2) have "loop (s\<lparr>ping_pos := ping_pos s + 1, trace := trace s @ [Print (strip line)]\<rparr>) = Some y"
        by (simp add: Let_def print_def emit_def)
      from 1(1) [OF this] show ?thesis by simp
    next
      case Eof
      with 1(2) show ?thesis by (auto simp: Let_def)
    next
      case Sigint
      obtain r1 s1 where d: "deliver_sigint (s\<lparr>ping_pos := ping_pos s + 1\<rparr>) = (r1, s1)"
        by (cases "deliver_sigint (s\<lparr>ping_pos := ping_pos s + 1\<rparr>)")
      then have g: "globals s1 = globals s"
        using deliver_sigint_globals [of "s\<lparr>ping_pos := ping_pos s + 1\<rparr>"] by simp
      show ?thesis
      proof (cases r1)
        case (Inl e)
        with 1(2) Sigint d g show ?thesis by (auto simp: Let_def)
      next
        case (Inr u)
        with 1(2) Sigint d have "loop s1 = Some y" by (simp add: Let_def)
        from 1(1) [OF this] g show ?thesis by simp
      qed
    qed
  qed
  from this [OF assms] show ?thesis by simp
qed

lemma ping_loop_interrupt:
  assumes "sigint_handler s = Stop_ping p" and "interrupted_after k s"
  shows "\<exists>s'. ping_loop s = Some (Inl (System_exit 0), s') \<and>
           filter is_bg (trace s') = filter is_bg (trace s) @ [Terminate p] \<and>
           children s' = children s \<and> sigint_handler s' = sigint_handler s"
  using assms
proof (induction k arbitrary: s)
  case 0
  then have "ping_feed s (ping_pos s) = Sigint" by (simp add: interrupted_after_def)
  with 0(1) show ?case
    by (subst ping_loop.simps)
      (simp add: Let_def deliver_sigint_def signal_handler_def seq_def bind_def print_def
        emit_def raise_def)
next
  case (Suc k)
  from Suc.prems(2) obtain l where l: "ping_feed s (ping_pos s) = Line l"
    by (auto simp: interrupted_after_def dest: spec [of _ 0])
  let ?s1 = "s\<lparr>ping_pos := ping_pos s + 1, trace := trace s @ [Print (strip l)]\<rparr>"
  have step: "ping_loop s = ping_loop ?s1"
    using l by (subst ping_loop.simps) (simp add: Let_def print_def emit_def)
  have "interrupted_after k ?s1"
    unfolding interrupted_after_def
  proof (intro conjI allI impI)
    fix i assume "i < k"
    then have "Suc i < Suc k" by simp
    with Suc.prems(2) obtain l' where "ping_feed s (ping_pos s + Suc i) = Line l'"
      unfolding interrupted_after_def by blast
    then show "\<exists>l. ping_feed ?s1 (ping_pos ?s1 + i) = Line l" by simp
  next
    from Suc.prems(2) show "ping_feed ?s1 (ping_pos ?s1 + k) = Sigint"
      by (simp add: interrupted_after_def)
  qed
  moreover have "sigint_handler ?s1 = Stop_ping p" using Suc.prems(1) by simp
  ultimately obtain s' where "ping_loop ?s1 = Some (Inl (System_exit 0), s')"
    "filter is_bg (trace s') = filter is_bg (trace ?s1) @ [Terminate p]"
    "children s' = children ?s1" "sigint_handler s' = sigint_handler ?s1"
    using Suc.IH [of ?s1] by blast
  with step show ?case by simp
qed

lemma continuous_ping_start:
  assumes "popen_starts s"
  shows "continuous_ping s =
           (case ping_loop
                   (s\<lparr>children := children s @ [ping_argv],
                      sigint_handler := Stop_ping (length (children s)),
                      trace := trace s @
                        [Print ''Starting continuous ping from HostA to HostB...'',
                         Print ''Press Ctrl+C to stop'',
                         Popen ping_argv,
                         Install_sigint (Stop_ping (length (children s)))]\<rparr>) of
              None \<Rightarrow> None
            | Some (Inl Keyboard_interrupt, s'') \<Rightarrow>
                Some (block [print ''\<newline>Stopping ping...'',
                             emit (Terminate (length (children s)))] s'')
            | Some r \<Rightarrow> Some r)"
  using assms
  by (simp add: continuous_ping_def seq_def bind_def print_def emit_def popen_def Let_def
      signal_sigint_def return_def ping_argv_def)

lemma continuous_ping_interrupt:
  assumes "popen_starts s" and "interrupted_after k s"
  shows "\<exists>s'. continuous_ping s = Some (Inl (System_exit 0), s') \<and>
           filter is_bg (trace s') =
             filter is_bg (trace s) @
             [Popen ping_argv, Install_sigint (Stop_ping (length (children s))),
              Terminate (length (children s))] \<and>
           children s' = children s @ [ping_argv]"
proof -
  let ?s1 = "s\<lparr>children := children s @ [ping_argv],
                      sigint_handler := Stop_ping (length (children s)),
                      trace := trace s @
                        [Print ''Starting continuous ping from HostA to HostB...'',
                         Print ''Press Ctrl+C to stop'',
                         Popen ping_argv,
                         Install_sigint (Stop_ping (length (children s)))]\<rparr>"
  have "sigint_handler ?s1 = Stop_ping (length (children s))" by simp
  moreover have "interrupted_after k ?s1"
    using assms(2) by (simp add: interrupted_after_def)
  ultimately obtain s' where s': "ping_loop ?s1 = Some (Inl (System_exit 0), s')"
    "filter is_bg (trace s') = filter is_bg (trace ?s1) @ [Terminate (length (children s))]"
    "children s' = children ?s1"
    using ping_loop_interrupt [of ?s1 "length (children s)" k] by blast
  have "continuous_ping s = Some (Inl (System_exit 0), s')"
    using s'(1) by (simp add: continuous_ping_start [OF assms(1)])
  with s'(2,3) show ?thesis by simp
qed

lemma continuous_ping_popen_fails:
  assumes "\<not> popen_starts s"
  shows "continuous_ping s =
           Some (Inl OS_error,
                 s\<lparr>trace := trace s @
                      [Print ''Starting continuous ping from HostA to HostB...'',
                       Print ''Press Ctrl+C to stop'',
                       Popen ping_argv]\<rparr>)"
  using assms
  by (simp add: continuous_ping_def seq_def bind_def print_def emit_def popen_def Let_def
      ping_argv_def)

lemma continuous_ping_globals:
  assumes "continuous_ping s = Some (r, s')"
  shows "globals s' = globals s"
proof (cases "popen_starts s")
  case False
  with assms show ?thesis by (auto simp: continuous_ping_popen_fails)
next
  case True
  let ?s1 = "s\<lparr>children := children s @ [ping_argv],
                      sigint_handler := Stop_ping (length (children s)),
                      trace := trace s @
                        [Print ''Starting continuous ping from HostA to HostB...'',
                         Print ''Press Ctrl+C to stop'',
                         Popen ping_argv,
                         Install_sigint (Stop_ping (length (children s)))]\<rparr>"
  from assms True obtain r1 s1 where l: "ping_loop ?s1 = Some (r1, s1)"
    by (cases "ping_loop ?s1") (auto simp: continuous_ping_start)
  then have g: "globals s1 = globals s"
    using ping_loop_globals [OF l] by simp
  show ?thesis
  proof (cases "r1 = Inl Keyboard_interrupt")
    case True
    with assms \<open>popen_starts s\<close> l g show ?thesis
      by (auto simp: continuous_ping_start seq_def bind_def print_def emit_def return_def)
  next
    case False
    with assms \<open>popen_starts s\<close> l have "(r, s') = (r1, s1)"
      by (auto simp: continuous_ping_start split: sum.splits exn.splits)
    with g show ?thesis by simp
  qed
qed

lemma main_globals:
  assumes "main a s = Some (r, s')"
  shows "globals s' = globals s"
proof -
  obtain r1 s1 where c: "for_each (main_calls a) perform s = (r1, s1)"
    by (cases "for_each (main_calls a) perform s")
  then have g1: "globals s1 = globals s"
    using keeps_globals [OF keeps_main_calls, of a s] by simp
  show ?thesis
  proof (cases r1)
    case (Inl e)
    with assms c g1 show ?thesis by (auto simp: main_def)
  next
    case (Inr u)
    show ?thesis
    proof (cases "arg_continuous_ping a")
      case False
      with assms c Inr g1 show ?thesis
        by (auto simp: main_def emit_def return_def split: if_splits)
    next
      case True
      with assms c Inr obtain r2 s2 where p: "continuous_ping s1 = Some (r2, s2)"
        by (cases "continuous_ping s1") (auto simp: main_def)
      then have g2: "globals s2 = globals s1" by (rule continuous_ping_globals)
      from assms c Inr True p g1 g2 show ?thesis
        by (cases r2) (auto simp: main_def emit_def return_def split: if_splits)
    qed
  qed
qed

lemma ping_loop_outcomes:
  assumes "ping_loop s = Some y" and "sigint_handler s = Stop_ping p"
  shows "(fst y = Inr () \<and> filter is_bg (trace (snd y)) = filter is_bg (trace s)) \<or>
         (fst y = Inl (System_exit 0) \<and>
          filter is_bg (trace (snd y)) = filter is_bg (trace s) @ [Terminate p])"
proof -
  have "sigint_handler s = Stop_ping p \<longrightarrow>
        (fst y = Inr () \<and> filter is_bg (trace (snd y)) = filter is_bg (trace s)) \<or>
        (fst y = Inl (System_exit 0) \<and>
         filter is_bg (trace (snd y)) = filter is_bg (trace s) @ [Terminate p])"
    using assms(1)
  proof (induct rule: ping_loop.raw_induct [rotated, consumes 1, case_names step])
    case (step loop s y)
    show ?case
    proof
      assume h: "sigint_handler s = Stop_ping p"
      show "(fst y = Inr () \<and> filter is_bg (trace (snd y)) = filter is_bg (trace s)) \<or>
            (fst y = Inl (System_exit 0) \<and>
             filter is_bg (trace (snd y)) = filter is_bg (trace s) @ [Terminate p])"
      proof (cases "ping_feed s (ping_pos s)")
        case (Line line)
        let ?s1 = "s\<lparr>ping_pos := ping_pos s + 1, trace := trace s @ [Print (strip line)]\<rparr>"
        from step(2) Line have "loop ?s1 = Some y"
          by (simp add: Let_def print_def emit_def)
        from step(1) [OF this] h show ?thesis by simp
      next
        case Eof
        with step(2) show ?thesis by (auto simp: Let_def)
      next
        case Sigint
        with step(2) h show ?thesis
          by (auto simp: Let_def deliver_sigint_def signal_handler_def seq_def bind_def
              print_def emit_def raise_def)
      qed
    qed
  qed
  with assms(2) show ?thesis by simp
qed

lemma continuous_ping_outcomes:
  assumes "popen_starts s" and "continuous_ping s = Some (r, s')"
  shows "(r = Inr () \<and>
          filter is_bg (trace s') =
            filter is_bg (trace s) @
            [Popen ping_argv, Install_sigint (Stop_ping (length (children s)))]) \<or>
         (r = Inl (System_exit 0) \<and>
          filter is_bg (trace s') =
            filter is_bg (trace s) @
            [Popen ping_argv, Install_sigint (Stop_ping (length (children s))),
             Terminate (length (children s))])"
proof -
  let ?s1 = "s\<lparr>children := children s @ [ping_argv],
                      sigint_handler := Stop_ping (length (children s)),
                      trace := trace s @
                        [Print ''Starting continuous ping from HostA to HostB...'',
                         Print ''Press Ctrl+C to stop'',
                         Popen ping_argv,
                         Install_sigint (Stop_ping (length (children s)))]\<rparr>"
  from assms obtain y where l: "ping_loop ?s1 = Some y"
    by (cases "ping_loop ?s1") (auto simp: continuous_ping_start)
  have "sigint_handler ?s1 = Stop_ping (length (children s))" by simp
  from ping_loop_outcomes [OF l this]
  have o: "(fst y = Inr () \<and> filter is_bg (trace (snd y)) = filter is_bg (trace ?s1)) \<or>
         (fst y = Inl (System_exit 0) \<and>
          filter is_bg (trace (snd y)) = filter is_bg (trace ?s1) @ [Terminate (length (children s))])" .
  then have "continuous_ping s = Some y"
    using l assms(1) by (cases y) (auto simp: continuous_ping_start)
  with assms(2) have "y = (r, s')" by simp
  with o show ?thesis by auto
qed

section \<open>The OSPF configuration and the path switch\<close>

lemma on_link_simps:
  "on_link ''r1'' ''r2'' w = [cost_cmd ''r1'' ''eth1'' w]"
  "on_link ''r2'' ''r1'' w = [cost_cmd ''r2'' ''eth0'' w]"
  "on_link ''r2'' ''r3'' w = [cost_cmd ''r2'' ''eth1'' w]"
  "on_link ''r3'' ''r2'' w = [cost_cmd ''r3'' ''eth0'' w]"
  "on_link ''r1'' ''r4'' w = [cost_cmd ''r1'' ''eth2'' w]"
  "on_link ''r4'' ''r1'' w = [cost_cmd ''r4'' ''eth0'' w]"
  "on_link ''r3'' ''r4'' w = [cost_cmd ''r3'' ''eth1'' w]"
  "on_link ''r4'' ''r3'' w = [cost_cmd ''r4'' ''eth1'' w]"
  by (simp_all add: on_link_def link_interfaces)

lemma ok_initial:
  "loaded (initial w p f)" "all_complete (initial (\<lambda>n. Exited rc out err) p f)"
  "cmds (initial w p f) = []"
  by (simp_all add: loaded_def all_complete_def initial_def cmds_def)


lemma issued_prefix:
  assumes "runs m cs" and "loaded s"
  shows "\<exists>suf. cs = issued m s @ suf"
  using runs_prefix [OF assms] by (auto simp: issued_def)






lemma runs_make_before_break:
  assumes "f = ''north'' \<and> t = ''south'' \<or> f = ''south'' \<and> t = ''north''"
  shows "runs (switch_traffic_path f t) (make_before_break f t)"
  using assms runs_switch_north_south runs_switch_south_north
  by (auto simp: make_before_break_def path_ends_def on_link_simps)

lemma make_before_break_simps:
  "make_before_break ''north'' ''south'' =
     [cost_cmd ''r1'' ''eth2'' 10, cost_cmd ''r4'' ''eth0'' 10,
      cost_cmd ''r3'' ''eth1'' 10, cost_cmd ''r4'' ''eth1'' 10,
      Sleep 5,
      cost_cmd ''r1'' ''eth1'' 100, cost_cmd ''r2'' ''eth0'' 100,
      cost_cmd ''r2'' ''eth1'' 100, cost_cmd ''r3'' ''eth0'' 100,
      Sleep 5]"
  "make_before_break ''south'' ''north'' =
     [cost_cmd ''r1'' ''eth1'' 10, cost_cmd ''r2'' ''eth0'' 10,
      cost_cmd ''r2'' ''eth1'' 10, cost_cmd ''r3'' ''eth0'' 10,
      Sleep 5,
      cost_cmd ''r1'' ''eth2'' 100, cost_cmd ''r4'' ''eth0'' 100,
      cost_cmd ''r3'' ''eth1'' 100, cost_cmd ''r4'' ''eth1'' 100,
      Sleep 5]"
  by (simp_all add: make_before_break_def path_ends_def on_link_simps)

text \<open>
  C3. In \<open>switch_traffic_path\<close>, for both supported pairs: the four commands that
  lower the cost of the destination path to 10 (both ends of its two links) are
  issued first, then comes a wait of 5 seconds, and only then the four commands that
  raise the cost of the origin path to 100, followed by the final wait of 5 seconds.
  When every command completes (its process can be started and its output decoded)
  the call returns and has issued exactly this list, whatever the return codes are;
  in every run it has issued a prefix of the list. So no cost of the origin path is raised before all four commands for the
  destination path have been issued.
\<close>

theorem switch_traffic_path_make_before_break:
  assumes "loaded s"
    and "f = ''north'' \<and> t = ''south'' \<or> f = ''south'' \<and> t = ''north''"
  shows "(all_complete s \<longrightarrow>
            (\<exists>s'. switch_traffic_path f t s = (Inr (), s') \<and>
                  cmds s' = cmds s @ make_before_break f t)) \<and>
         (\<exists>rest. make_before_break f t = issued (switch_traffic_path f t) s @ rest)"
proof
  show "all_complete s \<longrightarrow>
            (\<exists>s'. switch_traffic_path f t s = (Inr (), s') \<and>
                  cmds s' = cmds s @ make_before_break f t)"
    using runs_returns [OF runs_make_before_break [OF assms(2)] assms(1)] by auto
next
  show "\<exists>rest. make_before_break f t = issued (switch_traffic_path f t) s @ rest"
    using issued_prefix [OF runs_make_before_break [OF assms(2)] assms(1)] .
qed

text \<open>
  The theorem in the run from north to south where every command succeeds, and in a
  run from south to north where every command fails and the sixth process cannot be
  started.
\<close>

theorem switch_traffic_path_make_before_break_witness:
  "loaded (initial (\<lambda>n. Exited 0 [] []) True (\<lambda>n. Eof)) \<and>
   all_complete (initial (\<lambda>n. Exited 0 [] []) True (\<lambda>n. Eof)) \<and>
   (\<exists>s'. switch_traffic_path ''north'' ''south'' (initial (\<lambda>n. Exited 0 [] []) True (\<lambda>n. Eof)) =
            (Inr (), s') \<and>
          cmds s' =
            [cost_cmd ''r1'' ''eth2'' 10, cost_cmd ''r4'' ''eth0'' 10,
             cost_cmd ''r3'' ''eth1'' 10, cost_cmd ''r4'' ''eth1'' 10,
             Sleep 5,
             cost_cmd ''r1'' ''eth1'' 100, cost_cmd ''r2'' ''eth0'' 100,
             cost_cmd ''r2'' ''eth1'' 100, cost_cmd ''r3'' ''eth0'' 100,
             Sleep 5]) \<and>
   (\<exists>rest.
      [cost_cmd ''r1'' ''eth1'' 10, cost_cmd ''r2'' ''eth0'' 10,
       cost_cmd ''r2'' ''eth1'' 10, cost_cmd ''r3'' ''eth0'' 10,
       Sleep 5,
       cost_cmd ''r1'' ''eth2'' 100, cost_cmd ''r4'' ''eth0'' 100,
       cost_cmd ''r3'' ''eth1'' 100, cost_cmd ''r4'' ''eth1'' 100,
       Sleep 5] =
      issued (switch_traffic_path ''south'' ''north'')
        (initial (\<lambda>n. if n = 5 then Not_started else Exited 1 [] []) True (\<lambda>n. Eof)) @ rest)"
  using switch_traffic_path_make_before_break
    [of "initial (\<lambda>n. Exited 0 [] []) True (\<lambda>n. Eof)" "''north''" "''south''"]
    switch_traffic_path_make_before_break
    [of "initial (\<lambda>n. if n = 5 then Not_started else Exited 1 [] []) True (\<lambda>n. Eof)"
        "''south''" "''north''"]
  by (simp add: ok_initial make_before_break_simps)




text \<open>
  C6. For every pair \<open>(from_path, to_path)\<close> other than ("north", "south") and
  ("south", "north"), \<open>switch_traffic_path\<close> issues no command at all: it prints
  the announcement, waits 5 seconds and prints that traffic was switched to
  \<open>to_path\<close>. The dispatcher calls \<open>switch_traffic_path\<close> with the two supported
  pairs only: ("south", "north") for \<open>--switch-to-north\<close> and ("north", "south")
  for \<open>--switch-to-south\<close>.
\<close>

theorem switch_traffic_path_unsupported:
  "(\<not> (f = ''north'' \<and> t = ''south'') \<and> \<not> (f = ''south'' \<and> t = ''north'') \<longrightarrow>
      switch_traffic_path f t s =
        (Inr (),
         s\<lparr>trace := trace s @
              [Print (''Switching traffic from '' @ f @ '' path to '' @ t @ '' path...''),
               Print ''Waiting for full OSPF convergence...'',
               Sleep 5,
               Print (''Traffic switched to '' @ t @ '' path'')]\<rparr>)) \<and>
   (Switch_traffic_path f t \<in> set (main_calls a) \<longleftrightarrow>
      arg_switch_to_north a \<and> f = ''south'' \<and> t = ''north'' \<or>
      arg_switch_to_south a \<and> f = ''north'' \<and> t = ''south'')"
proof (intro conjI impI)
  assume "\<not> (f = ''north'' \<and> t = ''south'') \<and> \<not> (f = ''south'' \<and> t = ''north'')"
  then have no: "(f = ''north'' \<and> t = ''south'') = False" "(f = ''south'' \<and> t = ''north'') = False"
    by blast+
  have "switch_traffic_path f t =
          block
            [print (''Switching traffic from '' @ f @ '' path to '' @ t @ '' path...''),
             return (),
             print ''Waiting for full OSPF convergence...'',
             sleep 5,
             print (''Traffic switched to '' @ t @ '' path'')]"
    unfolding switch_traffic_path_def by (simp only: no if_False)
  then show "switch_traffic_path f t s =
        (Inr (),
         s\<lparr>trace := trace s @
              [Print (''Switching traffic from '' @ f @ '' path to '' @ t @ '' path...''),
               Print ''Waiting for full OSPF convergence...'',
               Sleep 5,
               Print (''Traffic switched to '' @ t @ '' path'')]\<rparr>)"
    by (simp add: seq_def bind_def print_def sleep_def emit_def return_def)
next
  show "Switch_traffic_path f t \<in> set (main_calls a) \<longleftrightarrow>
      arg_switch_to_north a \<and> f = ''south'' \<and> t = ''north'' \<or>
      arg_switch_to_south a \<and> f = ''north'' \<and> t = ''south''"
    by (auto simp: main_calls_def)
qed

text \<open>
  A switch from "north" to "north", in a run where no process could even be started.
\<close>

theorem switch_traffic_path_unsupported_witness:
  "\<not> (''north'' = ''north'' \<and> ''north'' = ''south'') \<and>
   \<not> (''north'' = ''south'' \<and> ''north'' = ''north'') \<and>
   switch_traffic_path ''north'' ''north'' (initial (\<lambda>n. Not_started) True (\<lambda>n. Eof)) =
     (Inr (),
      (initial (\<lambda>n. Not_started) True (\<lambda>n. Eof))
        \<lparr>trace :=
           [Print ''Switching traffic from north path to north path...'',
            Print ''Waiting for full OSPF convergence...'',
            Sleep 5,
            Print ''Traffic switched to north path'']\<rparr>)"
  using switch_traffic_path_unsupported
    [of "''north''" "''north''" "initial (\<lambda>n. Not_started) True (\<lambda>n. Eof)"]
  by (simp add: initial_def)

section \<open>Failed commands\<close>

lemma strip_prefixes_split:
  "\<exists>us. set us \<subseteq> set ws \<and> s = concat us @ strip_prefixes ws s"
proof (induction ws s rule: strip_prefixes.induct)
  case (1 ws s)
  show ?case
  proof (cases "find (\<lambda>w. starts_with w s) ws")
    case None
    then have "strip_prefixes ws s = s" by (simp add: strip_prefixes.simps)
    then have "set [] \<subseteq> set ws \<and> s = concat [] @ strip_prefixes ws s" by simp
    then show ?thesis by blast
  next
    case (Some w)
    then have w: "w \<in> set ws" "starts_with w s"
      by (auto simp: find_Some_iff)
    from 1 [OF Some] obtain us where us: "set us \<subseteq> set ws"
      "drop (length w) s = concat us @ strip_prefixes ws (drop (length w) s)"
      by blast
    have "s = take (length w) s @ drop (length w) s" by simp
    with w(2) have "s = w @ drop (length w) s" by (simp add: starts_with_def)
    with us(2) have "s = concat (w # us) @ strip_prefixes ws (drop (length w) s)" by simp
    moreover have "strip_prefixes ws s = strip_prefixes ws (drop (length w) s)"
      using Some by (simp add: strip_prefixes.simps)
    moreover have "set (w # us) \<subseteq> set ws" using w(1) us(1) by simp
    ultimately show ?thesis by metis
  qed
qed

lemma strip_prefixes_done:
  "w \<in> set ws \<Longrightarrow> \<not> starts_with w (strip_prefixes ws s)"
proof (induction ws s rule: strip_prefixes.induct)
  case (1 ws s)
  show ?case
  proof (cases "find (\<lambda>w. starts_with w s) ws")
    case None
    then have "strip_prefixes ws s = s" by (simp add: strip_prefixes.simps)
    moreover from None "1.prems" have "\<not> starts_with w s" by (auto simp: find_None_iff)
    ultimately show ?thesis by simp
  next
    case (Some v)
    then have "strip_prefixes ws s = strip_prefixes ws (drop (length v) s)"
      by (simp add: strip_prefixes.simps)
    with "1.IH" [OF Some "1.prems"] show ?thesis by simp
  qed
qed

lemma strip_spec:
  "\<exists>pre post. t = pre @ strip t @ post \<and> whitespace pre \<and> whitespace post \<and>
     (\<forall>w\<in>set spaces. \<not> starts_with w (strip t)) \<and>
     (\<forall>w\<in>set spaces. \<not> starts_with (rev w) (rev (strip t)))"
proof -
  let ?t1 = "strip_prefixes spaces t"
  let ?u = "strip_prefixes (map rev spaces) (rev ?t1)"
  have st: "strip t = rev ?u" by (simp add: strip_def)
  from strip_prefixes_split [of spaces t] obtain us where
    us: "set us \<subseteq> set spaces" "t = concat us @ ?t1" by blast
  from strip_prefixes_split [of "map rev spaces" "rev ?t1"] obtain vs where
    vs: "set vs \<subseteq> set (map rev spaces)" "rev ?t1 = concat vs @ ?u" by blast
  from vs(2) have "rev (rev ?t1) = rev (concat vs @ ?u)" by simp
  then have t1: "?t1 = rev ?u @ concat (map rev (rev vs))"
    by (simp add: rev_concat)
  have "set (map rev (rev vs)) \<subseteq> set spaces"
    using vs(1) by auto
  then have post: "whitespace (concat (map rev (rev vs)))"
    unfolding whitespace_def by blast
  have pre: "whitespace (concat us)"
    unfolding whitespace_def using us(1) by blast
  have eq: "t = concat us @ strip t @ concat (map rev (rev vs))"
    using us(2) t1 st by simp
  have front: "\<not> starts_with w (strip t)" if w: "w \<in> set spaces" for w
  proof
    assume sw: "starts_with w (strip t)"
    then have "w \<noteq> []" and tk: "take (length w) (rev ?u) = w"
      by (simp_all add: starts_with_def st)
    from tk have "length (take (length w) (rev ?u)) = length w" by simp
    then have "length w \<le> length (rev ?u)"
      by (simp add: min_def split: if_splits)
    with tk have "take (length w) (rev ?u @ concat (map rev (rev vs))) = w" by simp
    with t1 have "take (length w) ?t1 = w" by simp
    with \<open>w \<noteq> []\<close> have "starts_with w ?t1" by (simp add: starts_with_def)
    with strip_prefixes_done [OF w, of t] show False by simp
  qed
  have rear: "\<not> starts_with (rev w) (rev (strip t))" if w: "w \<in> set spaces" for w
  proof -
    from w have "rev w \<in> set (map rev spaces)" by simp
    from strip_prefixes_done [OF this, of "rev ?t1"] show ?thesis by (simp add: st)
  qed
  from eq pre post front rear show ?thesis by blast
qed

lemmas strip_eval = strip_def strip_prefixes.simps spaces_def starts_with_def

text \<open>
  C1, as stated, says that no caller branches on the failure of a command. The last
  statement of \<open>install_frr\<close> does: when all nine commands succeed it reports the
  running daemon, and when only the ninth (\<open>pgrep ospfd\<close>) ends with return code
  1 it prints the warning. (The four inspection commands choose their message in the
  same way.) C1 also says that a nonzero return code always ends in the report and
  \<open>None\<close>: a process that ends with return code 100 and whose output cannot be
  decoded ends in an exception that leaves \<open>run_command\<close>, with nothing printed.
\<close>

theorem install_frr_message_depends_on_failure:
  "last (trace (snd (install_frr ''r1''
           (initial (\<lambda>n. Exited 0 ''4242'' []) True (\<lambda>n. Eof))))) =
     Print ''OSPF daemon running on r1 (pid 4242)'' \<and>
   last (trace (snd (install_frr ''r1''
           (initial (\<lambda>n. if n = 8 then Exited 1 [] [] else Exited 0 ''4242'' []) True
              (\<lambda>n. Eof))))) =
     Print ''Warning: OSPF daemon may not be running on r1'' \<and>
   run_command [''apt-get'', ''update''] (Some ''r1'')
     (initial (\<lambda>n. Undecodable 100) True (\<lambda>n. Eof)) =
     (Inl Unicode_decode_error,
      (initial (\<lambda>n. Undecodable 100) True (\<lambda>n. Eof))
        \<lparr>trace := [Spawn [''docker'', ''exec'', ''r1'', ''apt-get'', ''update'']],
         tick := 1\<rparr>)"
  by (simp add: install_frr_def initial_def seq_def bind_def discard_def return_def
      run_command_zero run_command_nonzero run_command_undecodable print_def emit_def
      truthy_def full_cmd_def strip_eval)

text \<open>
  C1, amended. When the process ends with a nonzero return code and what it wrote
  can be decoded, \<open>run_command\<close> catches the failure, prints the command, the
  return code and the error output, and returns \<open>None\<close>, which does not carry
  the return code. On success it returns the output of the process, newlines
  translated, without the whitespace around it: what is cut off at the front and at
  the back is whitespace, and what remains neither begins nor ends with a whitespace
  character. No caller aborts or retries: when every command completes (its process
  can be started and its output decoded), \<open>install_frr\<close> on a container issues
  its nine commands, and every operation of the program issues one fixed list of
  commands and waits, whatever the return codes are. A caller that looks at the
  returned value does so only to choose the message it prints.
\<close>

theorem run_command_failure_not_fatal:
  "(world s (tick s) = Exited rc out err \<and> rc \<noteq> 0 \<longrightarrow>
      run_command cmd c s =
        (Inr None,
         s\<lparr>trace := trace s @
              [Spawn (full_cmd cmd c),
               Print (''Error executing command: '' @ join '' '' (full_cmd cmd c)),
               Print (''Exit code: '' @ str_int rc),
               Print (''Error output: '' @ translate_newlines err)],
           tick := tick s + 1\<rparr>)) \<and>
   (world s (tick s) = Exited 0 out err \<longrightarrow>
      fst (run_command cmd c s) = Inr (Some (strip (translate_newlines out)))) \<and>
   (\<exists>pre post. t = pre @ strip t @ post \<and> whitespace pre \<and> whitespace post \<and>
      (\<forall>w\<in>set spaces. \<not> starts_with w (strip t)) \<and>
      (\<forall>w\<in>set spaces. \<not> starts_with (rev w) (rev (strip t)))) \<and>
   (container \<noteq> [] \<and> loaded s \<and> all_complete s \<longrightarrow>
      (\<exists>s'. install_frr container s = (Inr (), s') \<and>
             cmds s' = cmds s @ install_frr_plan container)) \<and>
   (\<exists>plan. \<forall>s0. loaded s0 \<and> all_complete s0 \<longrightarrow>
      (\<exists>s'. perform call s0 = (Inr (), s') \<and> cmds s' = cmds s0 @ plan))"
proof (intro conjI impI)
  assume "world s (tick s) = Exited rc out err \<and> rc \<noteq> 0"
  then show "run_command cmd c s =
        (Inr None,
         s\<lparr>trace := trace s @
              [Spawn (full_cmd cmd c),
               Print (''Error executing command: '' @ join '' '' (full_cmd cmd c)),
               Print (''Exit code: '' @ str_int rc),
               Print (''Error output: '' @ translate_newlines err)],
           tick := tick s + 1\<rparr>)"
    by (simp add: run_command_nonzero)
next
  assume "world s (tick s) = Exited 0 out err"
  then show "fst (run_command cmd c s) = Inr (Some (strip (translate_newlines out)))"
    by (simp add: run_command_zero)
next
  show "\<exists>pre post. t = pre @ strip t @ post \<and> whitespace pre \<and> whitespace post \<and>
      (\<forall>w\<in>set spaces. \<not> starts_with w (strip t)) \<and>
      (\<forall>w\<in>set spaces. \<not> starts_with (rev w) (rev (strip t)))"
    by (rule strip_spec)
next
  assume a: "container \<noteq> [] \<and> loaded s \<and> all_complete s"
  then have "runs (install_frr container) (install_frr_plan container)"
    by (simp add: runs_install_frr)
  from runs_returns [OF this] a
  show "\<exists>s'. install_frr container s = (Inr (), s') \<and>
             cmds s' = cmds s @ install_frr_plan container"
    by auto
next
  obtain plan where p: "runs (perform call) plan"
    using runs_perform by blast
  have "\<exists>s'. perform call s0 = (Inr (), s') \<and> cmds s' = cmds s0 @ plan"
    if "loaded s0 \<and> all_complete s0" for s0
    using runs_returns [OF p, of s0] that by auto
  then show "\<exists>plan. \<forall>s0. loaded s0 \<and> all_complete s0 \<longrightarrow>
      (\<exists>s'. perform call s0 = (Inr (), s') \<and> cmds s' = cmds s0 @ plan)"
    by blast
qed

text \<open>
  A run in which every command fails with return code 100: the report of the first
  command, and all nine commands of the installation.
\<close>

theorem run_command_failure_not_fatal_witness:
  "run_command [''apt-get'', ''update''] (Some ''r1'')
     (initial (\<lambda>n. Exited 100 [] ''E: no network'') True (\<lambda>n. Eof)) =
     (Inr None,
      (initial (\<lambda>n. Exited 100 [] ''E: no network'') True (\<lambda>n. Eof))
        \<lparr>trace :=
           [Spawn [''docker'', ''exec'', ''r1'', ''apt-get'', ''update''],
            Print ''Error executing command: docker exec r1 apt-get update'',
            Print ''Exit code: 100'',
            Print ''Error output: E: no network''],
         tick := 1\<rparr>) \<and>
   (\<exists>s'. install_frr ''r1'' (initial (\<lambda>n. Exited 100 [] ''E: no network'') True (\<lambda>n. Eof)) =
            (Inr (), s') \<and>
          cmds s' = install_frr_plan ''r1'')"
  using run_command_failure_not_fatal
    [of "initial (\<lambda>n. Exited 100 [] ''E: no network'') True (\<lambda>n. Eof)" 100 "[]"
        "''E: no network''" "[''apt-get'', ''update'']" "Some ''r1''" "[]" "''r1''"]
  by (simp add: ok_initial)
    (simp add: initial_def full_cmd_def truthy_def str_int_def str_nat.simps)

section \<open>The module globals\<close>

text \<open>
  C9. \<open>ROUTERS\<close>, \<open>HOSTS\<close>, \<open>DEFAULT_WEIGHT\<close> and \<open>HIGH_WEIGHT\<close> are
  static: every operation that the dispatcher calls, the continuous ping and the
  whole of \<open>main\<close> leave the module globals as they found them, whatever the
  outside does and whether the operation returns or raises.
\<close>

theorem globals_never_change:
  "globals (snd (perform c s)) = globals s \<and>
   (continuous_ping s = Some (r1, s1) \<longrightarrow> globals s1 = globals s) \<and>
   (main a s = Some (r2, s2) \<longrightarrow> globals s2 = globals s)"
  using keeps_globals [OF keeps_perform, of c s] continuous_ping_globals [of s r1 s1]
    main_globals [of a s r2 s2]
  by blast

section \<open>Two runs of the continuous ping\<close>

lemma eval_ping_eof:
  "continuous_ping (initial (\<lambda>n. Not_started) True (\<lambda>n. Eof)) =
     Some (Inr (),
       (initial (\<lambda>n. Not_started) True (\<lambda>n. Eof))
         \<lparr>trace :=
            [Print ''Starting continuous ping from HostA to HostB...'',
             Print ''Press Ctrl+C to stop'',
             Popen [''docker'', ''exec'', ''hosta'', ''ping'', ''10.0.15.3''],
             Install_sigint (Stop_ping 0)],
          sigint_handler := Stop_ping 0,
          children := [[''docker'', ''exec'', ''hosta'', ''ping'', ''10.0.15.3'']],
          ping_pos := 1\<rparr>)"
  by (simp add: continuous_ping_start ping_argv_def initial_def)
     (simp add: ping_loop.simps)

lemma eval_ping_sigint:
  "continuous_ping (initial (\<lambda>n. Not_started) True (\<lambda>n. if n < 2 then Line ''64 bytes from 10.0.15.3  '' else Sigint)) =
     Some (Inl (System_exit 0),
       (initial (\<lambda>n. Not_started) True (\<lambda>n. if n < 2 then Line ''64 bytes from 10.0.15.3  '' else Sigint))
         \<lparr>trace :=
            [Print ''Starting continuous ping from HostA to HostB...'',
             Print ''Press Ctrl+C to stop'',
             Popen [''docker'', ''exec'', ''hosta'', ''ping'', ''10.0.15.3''],
             Install_sigint (Stop_ping 0),
             Print ''64 bytes from 10.0.15.3'',
             Print ''64 bytes from 10.0.15.3'',
             Print ''\<newline>Stopping ping...'',
             Terminate 0],
          sigint_handler := Stop_ping 0,
          children := [[''docker'', ''exec'', ''hosta'', ''ping'', ''10.0.15.3'']],
          ping_pos := 3\<rparr>)"
  by (simp add: continuous_ping_start ping_argv_def initial_def)
     (simp add: ping_loop.simps print_def emit_def strip_eval deliver_sigint_def
        signal_handler_def seq_def bind_def raise_def)

lemma eval_main_ping:
  "main only_continuous_ping (initial (\<lambda>n. Not_started) True (\<lambda>n. Eof)) =
     Some (Inr (),
       (initial (\<lambda>n. Not_started) True (\<lambda>n. Eof))
         \<lparr>trace :=
            [Print ''Starting continuous ping from HostA to HostB...'',
             Print ''Press Ctrl+C to stop'',
             Popen [''docker'', ''exec'', ''hosta'', ''ping'', ''10.0.15.3''],
             Install_sigint (Stop_ping 0)],
          sigint_handler := Stop_ping 0,
          children := [[''docker'', ''exec'', ''hosta'', ''ping'', ''10.0.15.3'']],
          ping_pos := 1\<rparr>)"
  by (simp add: main_def main_calls_def only_continuous_ping_def for_each_def return_def
      eval_ping_eof)

lemma main_interrupt_after_calls:
  assumes "for_each (main_calls a) perform s = (Inr (), s1)" and "arg_continuous_ping a"
    and "popen_starts s1" and "interrupted_after k s1"
  shows "\<exists>s'. main a s = Some (Inl (System_exit 0), s') \<and>
           filter is_bg (trace s') =
             filter is_bg (trace s) @
             [Popen ping_argv, Install_sigint (Stop_ping (length (children s))),
              Terminate (length (children s))]"
proof -
  from keeps_main_calls [of a] assms(1)
  have k: "children s1 = children s" "filter is_bg (trace s1) = filter is_bg (trace s)"
    by (auto simp: keeps_def dest: spec [of _ s])
  from continuous_ping_interrupt [OF assms(3,4)] obtain s' where
    "continuous_ping s1 = Some (Inl (System_exit 0), s')"
    "filter is_bg (trace s') =
             filter is_bg (trace s1) @
             [Popen ping_argv, Install_sigint (Stop_ping (length (children s1))),
              Terminate (length (children s1))]"
    by blast
  with assms(1,2) k show ?thesis
    by (simp add: main_def)
qed

text \<open>
  The run of \<open>--continuous-ping\<close> in which the ping ends at once.
\<close>

theorem globals_never_change_witness:
  "continuous_ping (initial (\<lambda>n. Not_started) True (\<lambda>n. Eof)) =
     Some (Inr (),
       (initial (\<lambda>n. Not_started) True (\<lambda>n. Eof))
         \<lparr>trace :=
            [Print ''Starting continuous ping from HostA to HostB...'',
             Print ''Press Ctrl+C to stop'',
             Popen [''docker'', ''exec'', ''hosta'', ''ping'', ''10.0.15.3''],
             Install_sigint (Stop_ping 0)],
          sigint_handler := Stop_ping 0,
          children := [[''docker'', ''exec'', ''hosta'', ''ping'', ''10.0.15.3'']],
          ping_pos := 1\<rparr>) \<and>
   main only_continuous_ping (initial (\<lambda>n. Not_started) True (\<lambda>n. Eof)) =
     Some (Inr (),
       (initial (\<lambda>n. Not_started) True (\<lambda>n. Eof))
         \<lparr>trace :=
            [Print ''Starting continuous ping from HostA to HostB...'',
             Print ''Press Ctrl+C to stop'',
             Popen [''docker'', ''exec'', ''hosta'', ''ping'', ''10.0.15.3''],
             Install_sigint (Stop_ping 0)],
          sigint_handler := Stop_ping 0,
          children := [[''docker'', ''exec'', ''hosta'', ''ping'', ''10.0.15.3'']],
          ping_pos := 1\<rparr>) \<and>
   globals
     ((initial (\<lambda>n. Not_started) True (\<lambda>n. Eof))
         \<lparr>trace :=
            [Print ''Starting continuous ping from HostA to HostB...'',
             Print ''Press Ctrl+C to stop'',
             Popen [''docker'', ''exec'', ''hosta'', ''ping'', ''10.0.15.3''],
             Install_sigint (Stop_ping 0)],
          sigint_handler := Stop_ping 0,
          children := [[''docker'', ''exec'', ''hosta'', ''ping'', ''10.0.15.3'']],
          ping_pos := 1\<rparr>) = module_init"
  using globals_never_change
    [of Trace_route "initial (\<lambda>n. Not_started) True (\<lambda>n. Eof)" "Inr ()"
       "(initial (\<lambda>n. Not_started) True (\<lambda>n. Eof))
         \<lparr>trace :=
            [Print ''Starting continuous ping from HostA to HostB...'',
             Print ''Press Ctrl+C to stop'',
             Popen [''docker'', ''exec'', ''hosta'', ''ping'', ''10.0.15.3''],
             Install_sigint (Stop_ping 0)],
          sigint_handler := Stop_ping 0,
          children := [[''docker'', ''exec'', ''hosta'', ''ping'', ''10.0.15.3'']],
          ping_pos := 1\<rparr>"
       only_continuous_ping "Inr ()"
       "(initial (\<lambda>n. Not_started) True (\<lambda>n. Eof))
         \<lparr>trace :=
            [Print ''Starting continuous ping from HostA to HostB...'',
             Print ''Press Ctrl+C to stop'',
             Popen [''docker'', ''exec'', ''hosta'', ''ping'', ''10.0.15.3''],
             Install_sigint (Stop_ping 0)],
          sigint_handler := Stop_ping 0,
          children := [[''docker'', ''exec'', ''hosta'', ''ping'', ''10.0.15.3'']],
          ping_pos := 1\<rparr>"]
    eval_ping_eof eval_main_ping
  by (simp add: initial_def)

section \<open>The background child\<close>

text \<open>
  C10. No operation that the dispatcher calls, other than the continuous ping, starts
  a background child, installs a signal handler or terminates a child. The continuous
  ping starts exactly one child (the ping in container hosta) and installs a SIGINT
  handler for it. Once the handler is installed the continuous ping ends in one of
  two ways: the output of the ping ends and it returns, or a SIGINT arrives and the
  handler terminates this one child and raises \<open>SystemExit(0)\<close>, which leaves
  \<open>continuous_ping\<close> and \<open>main\<close>: the program exits with status 0.
\<close>

theorem background_ping_only:
  "filter is_bg (trace (snd (perform c s))) = filter is_bg (trace s) \<and>
   sigint_handler (snd (perform c s)) = sigint_handler s \<and>
   children (snd (perform c s)) = children s \<and>
   (popen_starts s \<and> continuous_ping s = Some (r, s') \<longrightarrow>
      (r = Inr () \<and>
       filter is_bg (trace s') =
         filter is_bg (trace s) @
         [Popen ping_argv, Install_sigint (Stop_ping (length (children s)))]) \<or>
      (r = Inl (System_exit 0) \<and>
       filter is_bg (trace s') =
         filter is_bg (trace s) @
         [Popen ping_argv, Install_sigint (Stop_ping (length (children s))),
          Terminate (length (children s))])) \<and>
   (popen_starts s \<and> interrupted_after k s \<longrightarrow>
      (\<exists>s2. continuous_ping s = Some (Inl (System_exit 0), s2) \<and>
            filter is_bg (trace s2) =
              filter is_bg (trace s) @
              [Popen ping_argv, Install_sigint (Stop_ping (length (children s))),
               Terminate (length (children s))] \<and>
            children s2 = children s @ [ping_argv])) \<and>
   (for_each (main_calls a) perform s = (Inr (), s1) \<and> arg_continuous_ping a \<and>
    popen_starts s1 \<and> interrupted_after k s1 \<longrightarrow>
      (\<exists>s2. main a s = Some (Inl (System_exit 0), s2) \<and>
            filter is_bg (trace s2) =
              filter is_bg (trace s) @
              [Popen ping_argv, Install_sigint (Stop_ping (length (children s))),
               Terminate (length (children s))]))"
proof (intro conjI impI)
  from keeps_perform [of c]
  show "filter is_bg (trace (snd (perform c s))) = filter is_bg (trace s)"
    and "sigint_handler (snd (perform c s)) = sigint_handler s"
    and "children (snd (perform c s)) = children s"
    by (simp_all add: keeps_def)
next
  assume "popen_starts s \<and> continuous_ping s = Some (r, s')"
  then show "(r = Inr () \<and>
       filter is_bg (trace s') =
         filter is_bg (trace s) @
         [Popen ping_argv, Install_sigint (Stop_ping (length (children s)))]) \<or>
      (r = Inl (System_exit 0) \<and>
       filter is_bg (trace s') =
         filter is_bg (trace s) @
         [Popen ping_argv, Install_sigint (Stop_ping (length (children s))),
          Terminate (length (children s))])"
    using continuous_ping_outcomes [of s r s'] by blast
next
  assume "popen_starts s \<and> interrupted_after k s"
  then show "\<exists>s2. continuous_ping s = Some (Inl (System_exit 0), s2) \<and>
            filter is_bg (trace s2) =
              filter is_bg (trace s) @
              [Popen ping_argv, Install_sigint (Stop_ping (length (children s))),
               Terminate (length (children s))] \<and>
            children s2 = children s @ [ping_argv]"
    using continuous_ping_interrupt [of s k] by blast
next
  assume "for_each (main_calls a) perform s = (Inr (), s1) \<and> arg_continuous_ping a \<and>
    popen_starts s1 \<and> interrupted_after k s1"
  then show "\<exists>s2. main a s = Some (Inl (System_exit 0), s2) \<and>
            filter is_bg (trace s2) =
              filter is_bg (trace s) @
              [Popen ping_argv, Install_sigint (Stop_ping (length (children s))),
               Terminate (length (children s))]"
    using main_interrupt_after_calls [of a s s1 k] by blast
qed

text \<open>
  The run of \<open>--continuous-ping\<close> that is interrupted after two lines of output.
\<close>

theorem background_ping_only_witness:
  "popen_starts
     (initial (\<lambda>n. Not_started) True
        (\<lambda>n. if n < 2 then Line ''64 bytes from 10.0.15.3  '' else Sigint)) \<and>
   interrupted_after 2
     (initial (\<lambda>n. Not_started) True
        (\<lambda>n. if n < 2 then Line ''64 bytes from 10.0.15.3  '' else Sigint)) \<and>
   arg_continuous_ping only_continuous_ping \<and>
   (\<exists>s2. continuous_ping
           (initial (\<lambda>n. Not_started) True
              (\<lambda>n. if n < 2 then Line ''64 bytes from 10.0.15.3  '' else Sigint)) =
           Some (Inl (System_exit 0), s2) \<and>
         filter is_bg (trace s2) =
           [Popen [''docker'', ''exec'', ''hosta'', ''ping'', ''10.0.15.3''],
            Install_sigint (Stop_ping 0), Terminate 0] \<and>
         children s2 = [[''docker'', ''exec'', ''hosta'', ''ping'', ''10.0.15.3'']]) \<and>
   (\<exists>s2. main only_continuous_ping
           (initial (\<lambda>n. Not_started) True
              (\<lambda>n. if n < 2 then Line ''64 bytes from 10.0.15.3  '' else Sigint)) =
           Some (Inl (System_exit 0), s2) \<and>
         filter is_bg (trace s2) =
           [Popen [''docker'', ''exec'', ''hosta'', ''ping'', ''10.0.15.3''],
            Install_sigint (Stop_ping 0), Terminate 0])"
proof -
  let ?s = "initial (\<lambda>n. Not_started) True
        (\<lambda>n. if n < 2 then Line ''64 bytes from 10.0.15.3  '' else Sigint)"
  have 1: "popen_starts ?s" by (simp add: initial_def)
  have 2: "interrupted_after 2 ?s" by (simp add: interrupted_after_def initial_def)
  have 3: "arg_continuous_ping only_continuous_ping" by (simp add: only_continuous_ping_def)
  have 4: "for_each (main_calls only_continuous_ping) perform ?s = (Inr (), ?s)"
    by (simp add: main_calls_def only_continuous_ping_def for_each_def return_def)
  have 5: "filter is_bg (trace ?s) = []" "children ?s = []" by (simp_all add: initial_def)
  from background_ping_only [of Trace_route ?s "Inr ()" ?s 2 only_continuous_ping ?s] 1 2 3 4
  show ?thesis
    by (simp add: 5 ping_argv_def)
qed

end
